theory Spec2Isabelle
  imports Complex_Main "HOL-Library.AList" "HOL-Library.Multiset"
begin

section \<open>Shared types\<close>

text \<open>
  UUIDs are carried in their string form; \<open>datetime\<close> counts microseconds
  (the resolution of Python's \<open>datetime\<close>), so that \<open>timedelta\<close> is exact.
  Embedding vectors are lists of rationals standing for the floats, which the
  ingestion code only stores.
\<close>

type_synonym uuid = string
type_synonym datetime = int
type_synonym vector = "rat list"

text \<open>
  Exceptions, as values. \<open>ExternalError\<close> is any exception raised inside a
  collaborator (transcription, storage download, embedding provider, date
  parser); \<open>RetryError\<close> is tenacity's wrapper around the exception of the last
  attempt.
\<close>

datatype exn =
    WorkerError string
  | ValueError string
  | RuntimeError string
  | IndexError string
  | KeyError string
  | MultipleResultsFound
  | NoResultFound
  | ExternalError string
  | RetryError exn

text \<open>
  \<open>str(e)\<close>. For \<open>RetryError\<close> the real text embeds the representation of a
  future object (with a memory address); it is abstracted to the wrapped
  message in brackets.
\<close>

fun str_exn :: "exn \<Rightarrow> string" where
  "str_exn (WorkerError m) = m"
| "str_exn (ValueError m) = m"
| "str_exn (RuntimeError m) = m"
| "str_exn (IndexError m) = m"
| "str_exn (KeyError m) = m"
| "str_exn MultipleResultsFound = ''Multiple rows were found when one or none was required''"
| "str_exn NoResultFound = ''No row was found when one was required''"
| "str_exn (ExternalError m) = m"
| "str_exn (RetryError e) = ''RetryError['' @ str_exn e @ '']''"

text \<open>\<open>str(n)\<close> for a non-negative integer, as used in formatted messages.\<close>

fun str_nat :: "nat \<Rightarrow> string" where
  "str_nat n =
     (if n < 10 then [''0123456789'' ! n]
      else str_nat (n div 10) @ [''0123456789'' ! (n mod 10)])"

declare str_nat.simps [simp del]

text \<open>
  \<open>str.lower()\<close> on ASCII text and the substring test \<open>p in s\<close>.
\<close>

definition lower_char :: "char \<Rightarrow> char" where
  "lower_char c =
     (case map_of (zip ''ABCDEFGHIJKLMNOPQRSTUVWXYZ'' ''abcdefghijklmnopqrstuvwxyz'') c of
        Some l \<Rightarrow> l | None \<Rightarrow> c)"

definition lower :: "string \<Rightarrow> string" where
  "lower s = map lower_char s"

fun startswith :: "string \<Rightarrow> string \<Rightarrow> bool" where
  "startswith s [] = True"
| "startswith [] (p # ps) = False"
| "startswith (c # cs) (p # ps) = (c = p \<and> startswith cs ps)"

fun str_contains :: "string \<Rightarrow> string \<Rightarrow> bool" where
  "str_contains [] p = (p = [])"
| "str_contains (c # cs) p = (startswith (c # cs) p \<or> str_contains cs p)"

section \<open>Chunker (app/chunking.py)\<close>

text \<open>
  Time offsets are Python floats that the chunker only copies around; they are
  carried as rationals. Token counts are lengths of tokenizer encodings, hence
  naturals; \<open>max_tokens\<close> and \<open>overlap_tokens\<close> are unbounded Python ints.
\<close>

type_synonym seconds = rat

text \<open>\<open>WordInfo\<close> of app/transcription.py.\<close>

record word_info =
  word_text :: string
  word_start_time :: seconds
  word_end_time :: seconds

text \<open>
  The dictionaries collected in \<open>sentence_objects\<close>. Transcript sentences carry
  \<open>start_time\<close>/\<open>end_time\<close>, document sentences carry \<open>page_number\<close>; a key
  the dictionary does not have is \<open>None\<close>.
\<close>

record sentence =
  sent_text :: string
  sent_start_time :: "seconds option"
  sent_end_time :: "seconds option"
  sent_page_number :: "int option"
  token_count :: nat

text \<open>
  \<open>ChunkMetadata\<close>. \<open>cm_metadata\<close> is the \<open>{start_page, end_page}\<close> dictionary
  of document chunks; transcript chunks have neither \<open>page_number\<close> nor
  \<open>metadata\<close>.
\<close>

record chunk_metadata =
  cm_text :: string
  cm_start_time :: "seconds option"
  cm_end_time :: "seconds option"
  chunk_index :: nat
  cm_page_number :: "int option"
  cm_metadata :: "(int option \<times> int option) option"

text \<open>Python's \<open>" ".join(xs)\<close>.\<close>

fun join_space :: "string list \<Rightarrow> string" where
  "join_space [] = []"
| "join_space [x] = x"
| "join_space (x # y # ys) = x @ '' '' @ join_space (y # ys)"

text \<open>
  The overlap window: \<open>for s in reversed(current_chunk_sents)\<close>, inserting at the
  front of \<open>overlap_buffer\<close> while the running count stays within
  \<open>overlap_tokens\<close>, and \<open>break\<close> at the first sentence that does not fit.
\<close>

fun overlap_scan :: "int \<Rightarrow> sentence list \<Rightarrow> sentence list \<Rightarrow> int \<Rightarrow> sentence list \<times> int" where
  "overlap_scan overlap_tokens [] overlap_buffer overlap_cnt = (overlap_buffer, overlap_cnt)"
| "overlap_scan overlap_tokens (s # rest) overlap_buffer overlap_cnt =
     (if overlap_cnt + int (token_count s) \<le> overlap_tokens
      then overlap_scan overlap_tokens rest (s # overlap_buffer) (overlap_cnt + int (token_count s))
      else (overlap_buffer, overlap_cnt))"

definition overlap_window :: "int \<Rightarrow> sentence list \<Rightarrow> sentence list \<times> int" where
  "overlap_window overlap_tokens current_chunk_sents =
     overlap_scan overlap_tokens (rev current_chunk_sents) [] 0"

text \<open>
  The grouping loop \<open>while i < len(sentence_objects)\<close>. It is written twice in
  the source, in \<open>chunk_transcript\<close> and in \<open>chunk_document\<close>, identically up to
  the dictionary appended to \<open>chunks\<close>; that dictionary is the parameter
  \<open>finalize\<close>, applied to \<open>chunk_idx\<close> and \<open>current_chunk_sents\<close>. The state is
  \<open>(chunks, current_chunk_sents, current_tokens, chunk_idx)\<close>.
\<close>

fun pack_loop ::
  "(nat \<Rightarrow> sentence list \<Rightarrow> 'c) \<Rightarrow> int \<Rightarrow> int \<Rightarrow> sentence list \<Rightarrow>
   'c list \<Rightarrow> sentence list \<Rightarrow> int \<Rightarrow> nat \<Rightarrow> 'c list \<times> sentence list \<times> nat" where
  "pack_loop finalize max_tokens overlap_tokens [] chunks current_chunk_sents current_tokens chunk_idx =
     (chunks, current_chunk_sents, chunk_idx)"
| "pack_loop finalize max_tokens overlap_tokens (sent # rest) chunks current_chunk_sents current_tokens chunk_idx =
     (if current_tokens + int (token_count sent) > max_tokens \<and> current_chunk_sents \<noteq> []
      then
        (case overlap_window overlap_tokens current_chunk_sents of
           (overlap_buffer, overlap_cnt) \<Rightarrow>
             pack_loop finalize max_tokens overlap_tokens rest
               (chunks @ [finalize chunk_idx current_chunk_sents])
               (overlap_buffer @ [sent])
               (overlap_cnt + int (token_count sent))
               (chunk_idx + 1))
      else
        pack_loop finalize max_tokens overlap_tokens rest
          chunks
          (current_chunk_sents @ [sent])
          (current_tokens + int (token_count sent))
          chunk_idx)"

text \<open>The loop from its initial state, followed by the final flush.\<close>

definition pack_sentences ::
  "(nat \<Rightarrow> sentence list \<Rightarrow> 'c) \<Rightarrow> int \<Rightarrow> int \<Rightarrow> sentence list \<Rightarrow> 'c list" where
  "pack_sentences finalize max_tokens overlap_tokens sentence_objects =
     (case pack_loop finalize max_tokens overlap_tokens sentence_objects [] [] 0 0 of
        (chunks, current_chunk_sents, chunk_idx) \<Rightarrow>
          if current_chunk_sents \<noteq> [] then chunks @ [finalize chunk_idx current_chunk_sents]
          else chunks)"

text \<open>
  The dictionaries appended to \<open>chunks\<close>. Both are built only from a non-empty
  \<open>current_chunk_sents\<close> (the loop tests it, and so does the final flush), so
  \<open>[0]\<close> and \<open>[-1]\<close> are \<open>hd\<close> and \<open>last\<close>.
\<close>

definition finalize_transcript :: "nat \<Rightarrow> sentence list \<Rightarrow> chunk_metadata" where
  "finalize_transcript chunk_idx current_chunk_sents =
     \<lparr> cm_text = join_space (map sent_text current_chunk_sents),
       cm_start_time = sent_start_time (hd current_chunk_sents),
       cm_end_time = sent_end_time (last current_chunk_sents),
       chunk_index = chunk_idx,
       cm_page_number = None,
       cm_metadata = None \<rparr>"

definition finalize_document :: "nat \<Rightarrow> sentence list \<Rightarrow> chunk_metadata" where
  "finalize_document chunk_idx current_chunk_sents =
     (let start_page = sent_page_number (hd current_chunk_sents);
          end_page = sent_page_number (last current_chunk_sents)
      in \<lparr> cm_text = join_space (map sent_text current_chunk_sents),
           cm_start_time = None,
           cm_end_time = None,
           chunk_index = chunk_idx,
           cm_page_number = start_page,
           cm_metadata = Some (start_page, end_page) \<rparr>)"

text \<open>
  Sentence alignment of \<open>chunk_transcript\<close>: for one sentence, words are consumed
  from \<open>current_word_idx\<close> on until the collected characters (blanks removed,
  lower-cased, so only their number matters) reach the length of the target.
  The result is \<open>sent_words\<close> and the words left.
\<close>

definition remove_spaces :: "string \<Rightarrow> string" where
  "remove_spaces s = filter (\<lambda>c. c \<noteq> CHR '' '') s"

fun consume_words :: "nat \<Rightarrow> nat \<Rightarrow> word_info list \<Rightarrow> word_info list \<times> word_info list" where
  "consume_words target collected [] = ([], [])"
| "consume_words target collected (w # ws) =
     (let collected' = collected + length (remove_spaces (word_text w))
      in if collected' \<ge> target then ([w], ws)
         else (case consume_words target collected' ws of
                 (sent_words, remaining) \<Rightarrow> (w # sent_words, remaining)))"

fun align_sentences :: "(string \<Rightarrow> nat) \<Rightarrow> string list \<Rightarrow> word_info list \<Rightarrow> sentence list" where
  "align_sentences count_tokens [] words = []"
| "align_sentences count_tokens (sent # sentences) words =
     (case consume_words (length (remove_spaces sent)) 0 words of
        (sent_words, remaining) \<Rightarrow>
          if sent_words \<noteq> [] then
            (let real_sent_text = join_space (map word_text sent_words)
             in \<lparr> sent_text = real_sent_text,
                  sent_start_time = Some (word_start_time (hd sent_words)),
                  sent_end_time = Some (word_end_time (last sent_words)),
                  sent_page_number = None,
                  token_count = count_tokens real_sent_text \<rparr>
                # align_sentences count_tokens sentences remaining)
          else align_sentences count_tokens sentences remaining)"

text \<open>
  \<open>chunk_transcript\<close> and \<open>chunk_document\<close>. The sentence splitter
  (\<open>nltk.sent_tokenize\<close>) and the tokenizer (\<open>count_tokens\<close>, the length of the
  tiktoken encoding) are external and taken as parameters.
\<close>

definition chunk_transcript ::
  "(string \<Rightarrow> string list) \<Rightarrow> (string \<Rightarrow> nat) \<Rightarrow> string \<Rightarrow> word_info list \<Rightarrow> int \<Rightarrow> int \<Rightarrow>
   chunk_metadata list" where
  "chunk_transcript sent_tokenize count_tokens transcript words max_tokens overlap_tokens =
     pack_sentences finalize_transcript max_tokens overlap_tokens
       (align_sentences count_tokens (sent_tokenize transcript) words)"

record page_content =
  page_number :: int
  page_text :: string

definition page_sentences :: "(string \<Rightarrow> string list) \<Rightarrow> (string \<Rightarrow> nat) \<Rightarrow> page_content \<Rightarrow> sentence list" where
  "page_sentences sent_tokenize count_tokens page =
     map (\<lambda>s_text. \<lparr> sent_text = s_text,
                     sent_start_time = None,
                     sent_end_time = None,
                     sent_page_number = Some (page_number page),
                     token_count = count_tokens s_text \<rparr>)
         (sent_tokenize (page_text page))"

definition chunk_document ::
  "(string \<Rightarrow> string list) \<Rightarrow> (string \<Rightarrow> nat) \<Rightarrow> page_content list \<Rightarrow> int \<Rightarrow> int \<Rightarrow>
   chunk_metadata list" where
  "chunk_document sent_tokenize count_tokens pages max_tokens overlap_tokens =
     pack_sentences finalize_document max_tokens overlap_tokens
       (concat (map (page_sentences sent_tokenize count_tokens) pages))"

text \<open>
  The sentences each chunk is composed of: the same loop, recording the index
  and the buffer itself instead of the dictionary built from them.
\<close>

definition chunk_groups :: "int \<Rightarrow> int \<Rightarrow> sentence list \<Rightarrow> (nat \<times> sentence list) list" where
  "chunk_groups max_tokens overlap_tokens sentence_objects =
     pack_sentences Pair max_tokens overlap_tokens sentence_objects"

definition group_tokens :: "sentence list \<Rightarrow> int" where
  "group_tokens g = (\<Sum>s\<leftarrow>g. int (token_count s))"


text \<open>
  For stating what the packer guarantees: a group of sentences has at most
  \<open>max_tokens\<close> tokens, or is a single sentence, or is a group of at most
  \<open>overlap_tokens\<close> tokens followed by one more sentence.
\<close>

definition within_budget :: "int \<Rightarrow> int \<Rightarrow> sentence list \<Rightarrow> bool" where
  "within_budget max_tokens overlap_tokens g =
     (group_tokens g \<le> max_tokens \<or> length g = 1
      \<or> (g \<noteq> [] \<and> group_tokens (butlast g) \<le> overlap_tokens))"

section \<open>Query intent helper (app/api/query.py)\<close>

definition timedelta_days :: "int \<Rightarrow> int" where
  "timedelta_days d = d * 86400000000"

definition timedelta_hours :: "int \<Rightarrow> int" where
  "timedelta_hours h = h * 3600000000"

text \<open>
  \<open>parse_temporal_intent\<close>; \<open>now\<close> is the value of \<open>datetime.utcnow()\<close>.
\<close>

definition parse_temporal_intent :: "datetime \<Rightarrow> string \<Rightarrow> datetime option" where
  "parse_temporal_intent now query =
     (let query_lower = lower query in
      if str_contains query_lower ''last week'' \<or> str_contains query_lower ''past week''
        then Some (now - timedelta_days 7)
      else if str_contains query_lower ''yesterday''
        then Some (now - timedelta_days 1)
      else if str_contains query_lower ''last month'' \<or> str_contains query_lower ''past month''
        then Some (now - timedelta_days 30)
      else if str_contains query_lower ''last 24 hours''
        then Some (now - timedelta_hours 24)
      else None)"

text \<open>
  The request models. \<open>date_range\<close> is a \<open>Dict[str, Any]\<close>: a map from keys to
  arbitrary JSON values.
\<close>

datatype json_value = JString string | JNumber int | JBool bool | JNull

record query_filters =
  date_range :: "(string \<rightharpoonup> json_value) option"
  source_type :: "string list option"
  document_ids :: "uuid list option"

record query_request =
  query :: string
  filters :: "query_filters option"

text \<open>The \<open>search_filters\<close> dictionary handed to the retrieval engine.\<close>

record search_filters =
  sf_start_date :: "datetime option"
  sf_document_id :: "uuid list option"

text \<open>
  Step 1 of \<open>query_endpoint\<close>. The condition is Python's
  \<open>request.filters and request.filters.date_range and "start" in ...\<close>: the
  filters object is present, the dictionary is present and non-empty, and it
  has the key. \<open>date_parse\<close> is \<open>dateutil.parser.parse\<close>; whatever it raises is
  swallowed by the bare \<open>except: pass\<close>, which leaves \<open>start_date = None\<close>.
\<close>

definition resolve_start_date ::
  "(json_value \<Rightarrow> exn + datetime) \<Rightarrow> datetime \<Rightarrow> query_request \<Rightarrow> datetime option" where
  "resolve_start_date date_parse now request =
     (case filters request of
        None \<Rightarrow> parse_temporal_intent now (query request)
      | Some f \<Rightarrow>
          (case date_range f of
             None \<Rightarrow> parse_temporal_intent now (query request)
           | Some dr \<Rightarrow>
               if dr \<noteq> Map.empty then
                 (case dr ''start'' of
                    None \<Rightarrow> parse_temporal_intent now (query request)
                  | Some v \<Rightarrow>
                      (case date_parse v of
                         Inr start_date \<Rightarrow> Some start_date
                       | Inl e \<Rightarrow> None))
               else parse_temporal_intent now (query request)))"

text \<open>
  The assembly of \<open>search_filters\<close>: \<open>start_date\<close> is stored when it is not
  \<open>None\<close> (a \<open>datetime\<close> is always truthy), \<open>document_id\<close> when the request
  has a non-empty list of document ids.
\<close>

definition build_search_filters ::
  "(json_value \<Rightarrow> exn + datetime) \<Rightarrow> datetime \<Rightarrow> query_request \<Rightarrow> search_filters" where
  "build_search_filters date_parse now request =
     \<lparr> sf_start_date = resolve_start_date date_parse now request,
       sf_document_id =
         (case filters request of
            None \<Rightarrow> None
          | Some f \<Rightarrow>
              (case document_ids f of
                 None \<Rightarrow> None
               | Some ids \<Rightarrow> if ids \<noteq> [] then Some ids else None)) \<rparr>"



section \<open>Hybrid retrieval engine (app/search.py)\<close>












section \<open>Embedding batch validator (app/embeddings.py)\<close>

text \<open>
  The provider call \<open>self.model.get_embeddings(batch_texts)\<close> is external: it
  returns a list of vectors, of any length, or raises, and may answer the same
  batch differently from one call to the next. It is a function of the number
  of calls made before and of the batch; the list of batches requested so far
  is threaded through as \<open>requests\<close>.
\<close>

type_synonym provider = "nat \<Rightarrow> string list \<Rightarrow> exn + vector list"

text \<open>
  The batch limit set up by \<open>__init__\<close> from \<open>EMBEDDING_BATCH_LIMIT\<close>: the
  variable is unset (\<open>None\<close>), set to an integer, or set to something
  \<open>int()\<close> rejects (\<open>Some None\<close>).
\<close>

definition configured_batch_limit :: "int option option \<Rightarrow> int" where
  "configured_batch_limit env_var =
     (case env_var of
        None \<Rightarrow> min 128 250
      | Some None \<Rightarrow> 128
      | Some (Some env_limit) \<Rightarrow> min env_limit 250)"

text \<open>
  The loop \<open>for i in range(0, len(texts), self.batch_limit)\<close> for a positive
  step; \<open>texts[i : i + batch_limit]\<close> is \<open>take batch_limit (drop i texts)\<close>.
\<close>

function embed_batches ::
  "int \<Rightarrow> provider \<Rightarrow> string list \<Rightarrow> nat \<Rightarrow> vector list \<Rightarrow> string list list \<Rightarrow>
   (exn + vector list) \<times> string list list" where
  "embed_batches batch_limit provider texts i all_embeddings requests =
     (if 0 < batch_limit \<and> i < length texts then
        (let batch_texts = take (nat batch_limit) (drop i texts) in
         case provider (length requests) batch_texts of
           Inl e \<Rightarrow> (Inl e, requests @ [batch_texts])
         | Inr embeddings \<Rightarrow>
             if length embeddings \<noteq> length batch_texts then
               (Inl (RuntimeError (''Embedding count mismatch. Requested: ''
                       @ str_nat (length batch_texts) @ '', Received: ''
                       @ str_nat (length embeddings)
                       @ ''. This indicates a partial failure or API issue.'')),
                requests @ [batch_texts])
             else embed_batches batch_limit provider texts (i + nat batch_limit)
                    (all_embeddings @ embeddings) (requests @ [batch_texts]))
      else (Inr all_embeddings, requests))"
  by pat_completeness auto
termination
  by (relation "measure (\<lambda>(batch_limit, provider, texts, i, all_embeddings, requests). length texts - i)")
     auto

declare embed_batches.simps [simp del]

text \<open>
  The body of \<open>generate_embeddings\<close>, one attempt: nothing to do for no
  texts; \<open>range\<close> raises for a step of 0 and is empty for a negative step, so
  that the loop does not run and the empty list is returned.
\<close>

definition generate_embeddings_attempt ::
  "int \<Rightarrow> provider \<Rightarrow> string list \<Rightarrow> string list list \<Rightarrow> (exn + vector list) \<times> string list list" where
  "generate_embeddings_attempt batch_limit provider texts requests =
     (if texts = [] then (Inr [], requests)
      else if batch_limit = 0 then (Inl (ValueError ''range() arg 3 must not be zero''), requests)
      else embed_batches batch_limit provider texts 0 [] requests)"

text \<open>
  \<open>VertexAIEmbeddingService.generate_embeddings\<close>: the body under
  \<open>@retry(stop=stop_after_attempt(3), wait=...)\<close>. The decorator retries on
  every exception of the body, runs it at most three times, and when the third
  attempt raises too it raises \<open>RetryError\<close> around that last exception. The
  waits between attempts are not modelled.
\<close>

definition vertex_generate_embeddings ::
  "int \<Rightarrow> provider \<Rightarrow> string list \<Rightarrow> string list list \<Rightarrow> (exn + vector list) \<times> string list list" where
  "vertex_generate_embeddings batch_limit provider texts requests =
     (case generate_embeddings_attempt batch_limit provider texts requests of
        (Inr vectors, requests1) \<Rightarrow> (Inr vectors, requests1)
      | (Inl e1, requests1) \<Rightarrow>
     (case generate_embeddings_attempt batch_limit provider texts requests1 of
        (Inr vectors, requests2) \<Rightarrow> (Inr vectors, requests2)
      | (Inl e2, requests2) \<Rightarrow>
     (case generate_embeddings_attempt batch_limit provider texts requests2 of
        (Inr vectors, requests3) \<Rightarrow> (Inr vectors, requests3)
      | (Inl e3, requests3) \<Rightarrow> (Inl (RetryError e3), requests3))))"

section \<open>Data model (app/models.py)\<close>

datatype document_source_type = Audio | Pdf | Markdown | Text | Web | Image

datatype ingestion_status = Pending | Processing | Completed | Failed

text \<open>
  The tables. \<open>jobs\<close> and \<open>documents\<close> are keyed by their primary keys
  (\<open>job_id\<close>, \<open>document_id\<close>), which are the keys of the maps below and not
  repeated in the rows. Only the columns the worker reads or writes are kept.
  The \<open>chunks\<close> table has no uniqueness constraint on
  \<open>(document_id, chunk_index)\<close> (its index on the pair is not unique), so it
  is a list of rows.
\<close>

record job =
  job_user_id :: uuid
  job_document_id :: uuid
  status :: ingestion_status
  error_message :: "string option"
  updated_at :: datetime

record document =
  doc_user_id :: uuid
  doc_source_type :: document_source_type
  title :: string
  source_uri :: string

record chunk =
  chunk_id :: uuid
  chunk_user_id :: uuid
  chunk_document_id :: uuid
  row_chunk_index :: nat
  chunk_text :: string
  embedding :: "vector option"
  source_ref :: "(int option \<times> int option) option"
  chunk_page_number :: "int option"
  start_offset :: "seconds option"
  end_offset :: "seconds option"
  created_at :: datetime

record database =
  jobs :: "uuid \<rightharpoonup> job"
  documents :: "uuid \<rightharpoonup> document"
  chunks :: "chunk list"

section \<open>Document extraction (app/extraction.py)\<close>

text \<open>
  \<open>extract_pdf\<close> numbers the pages of the PDF reader from 1 and returns no
  pages when the reader raises; \<open>extract_text_file\<close> returns the decoded text
  as page 1 (decoding with \<open>errors="replace"\<close> does not raise). The PDF
  reader and the decoder are parameters.
\<close>

definition extract_pdf :: "(string \<Rightarrow> exn + string list) \<Rightarrow> string \<Rightarrow> page_content list" where
  "extract_pdf pdf_reader file_bytes =
     (case pdf_reader file_bytes of
        Inl e \<Rightarrow> []
      | Inr texts \<Rightarrow>
          map (\<lambda>(i, t). \<lparr> page_number = int i + 1, page_text = t \<rparr>) (enumerate 0 texts))"

definition extract_text_file :: "(string \<Rightarrow> string) \<Rightarrow> string \<Rightarrow> page_content list" where
  "extract_text_file decode file_bytes = [\<lparr> page_number = 1, page_text = decode file_bytes \<rparr>]"

definition extract_document_text ::
  "(string \<Rightarrow> exn + string list) \<Rightarrow> (string \<Rightarrow> string) \<Rightarrow> string \<Rightarrow> string \<Rightarrow> page_content list" where
  "extract_document_text pdf_reader decode file_bytes file_type =
     (if file_type = ''pdf'' then extract_pdf pdf_reader file_bytes
      else extract_text_file decode file_bytes)"

section \<open>Ingestion worker (worker.py)\<close>

text \<open>
  What a run does to the outside, in order: commits (with the database
  content they make durable), rollbacks, calls of collaborators, and error
  log lines.
\<close>

datatype event =
    Commit database
  | Rollback
  | Transcribe string
  | Download string string
  | Embed "string list"
  | LogError string

text \<open>
  The session: \<open>committed\<close> is the durable content of the database, which
  other executions see; \<open>pending\<close> is the content as seen inside the session's
  transaction (statements executed or objects modified, flushed before each
  query); \<open>uuids\<close> counts the calls of \<open>uuid.uuid4()\<close>.
\<close>

record session =
  committed :: database
  pending :: database
  log :: "event list"
  uuids :: nat

definition new_session :: "database \<Rightarrow> session" where
  "new_session db = \<lparr> committed = db, pending = db, log = [], uuids = 0 \<rparr>"

definition emit :: "event \<Rightarrow> session \<Rightarrow> session" where
  "emit ev s = s\<lparr> log := log s @ [ev] \<rparr>"

definition commit :: "session \<Rightarrow> session" where
  "commit s = emit (Commit (pending s)) (s\<lparr> committed := pending s \<rparr>)"

definition rollback :: "session \<Rightarrow> session" where
  "rollback s = emit Rollback (s\<lparr> pending := committed s \<rparr>)"

text \<open>
  The collaborators and the clock. \<open>generate_embeddings\<close> is the embedding
  service selected by \<open>get_embedding_service()\<close>. \<open>failure_write\<close> is what
  happens to the statement and commit that record the failed status in the
  exception handler: \<open>None\<close> when they succeed, the exception when one of them
  raises.
\<close>

record env =
  utcnow :: datetime
  uuid4 :: "nat \<Rightarrow> uuid"
  transcribe_audio :: "string \<Rightarrow> exn + (string \<times> word_info list)"
  download_as_bytes :: "string \<Rightarrow> string \<Rightarrow> exn + string"
  pdf_reader :: "string \<Rightarrow> exn + string list"
  decode_utf8 :: "string \<Rightarrow> string"
  sent_tokenize :: "string \<Rightarrow> string list"
  count_tokens :: "string \<Rightarrow> nat"
  generate_embeddings :: "string list \<Rightarrow> exn + vector list"
  failure_write :: "exn option"

text \<open>
  Step 1, the claim: \<open>UPDATE jobs SET status = processing, updated_at = now
  WHERE job_id = :job_id AND status = pending\<close>, with its row count.
\<close>

definition claim_update :: "env \<Rightarrow> uuid \<Rightarrow> session \<Rightarrow> nat \<times> session" where
  "claim_update env jid s =
     (case jobs (pending s) jid of
        None \<Rightarrow> (0, s)
      | Some j \<Rightarrow>
          if status j = Pending then
            (1, s\<lparr> pending := (pending s)\<lparr> jobs := (jobs (pending s))
                    (jid \<mapsto> j\<lparr> status := Processing, updated_at := utcnow env \<rparr>) \<rparr> \<rparr>)
          else (0, s))"

text \<open>
  \<open>source_uri[5:].split("/", 1)\<close> and the file extension
  \<open>title.split(".")[-1].lower() if "." in title else "txt"\<close>.
\<close>

definition split_once :: "string \<Rightarrow> string list" where
  "split_once s =
     (if CHR ''/'' \<in> set s
      then [takeWhile (\<lambda>c. c \<noteq> CHR ''/'') s, drop 1 (dropWhile (\<lambda>c. c \<noteq> CHR ''/'') s)]
      else [s])"

definition title_ext :: "string \<Rightarrow> string" where
  "title_ext t =
     (if CHR ''.'' \<in> set t then lower (rev (takeWhile (\<lambda>c. c \<noteq> CHR ''.'') (rev t)))
      else ''txt'')"

text \<open>
  Step 3, the dispatch on the source type. The result is \<open>chunks_data\<close> or the
  exception raised, with the collaborator calls made. A source type other than
  audio, text, markdown, pdf takes neither branch and leaves
  \<open>chunks_data = []\<close>; so does a URI that does not start with \<open>gs://\<close>.
  \<open>parts[1]\<close> raises \<open>IndexError\<close> when the URI has no \<open>/\<close> after the bucket.
\<close>

definition extract_chunks :: "env \<Rightarrow> document \<Rightarrow> (exn + chunk_metadata list) \<times> event list" where
  "extract_chunks env document =
     (if doc_source_type document = Audio then
        (case transcribe_audio env (source_uri document) of
           Inl e \<Rightarrow> (Inl e, [Transcribe (source_uri document)])
         | Inr (transcript, words) \<Rightarrow>
             (Inr (chunk_transcript (sent_tokenize env) (count_tokens env) transcript words 800 100),
              [Transcribe (source_uri document)]))
      else if doc_source_type document \<in> {Text, Markdown, Pdf} then
        (if startswith (source_uri document) ''gs://'' then
           (case split_once (drop 5 (source_uri document)) of
              bucket_name # blob_name # _ \<Rightarrow>
                (case download_as_bytes env bucket_name blob_name of
                   Inl e \<Rightarrow> (Inl e, [Download bucket_name blob_name])
                 | Inr file_bytes \<Rightarrow>
                     (let ext = (if doc_source_type document = Pdf then ''pdf''
                                 else title_ext (title document));
                          pages = extract_document_text (pdf_reader env) (decode_utf8 env)
                                    file_bytes ext
                      in (Inr (chunk_document (sent_tokenize env) (count_tokens env) pages 800 100),
                          [Download bucket_name blob_name])))
            | _ \<Rightarrow> (Inl (IndexError ''list index out of range''), []))
         else (Inr [], []))
      else (Inr [], []))"

text \<open>
  Step 5, one iteration of the storing loop: the rows of the chunk's
  \<open>(document_id, chunk_index)\<close> are selected; \<open>scalar_one_or_none\<close> gives
  \<open>None\<close> for no row, the row for one, and raises for more. The existing row
  is assigned \<open>text\<close>, \<open>embedding\<close>, \<open>start_offset\<close>, \<open>end_offset\<close> and
  \<open>page_number\<close> (the assignment to \<open>updated_at\<close> sets an attribute that is
  not a column of \<open>chunks\<close> and reaches no row); a new row gets a fresh id,
  all of these, \<open>source_ref\<close> and \<open>created_at\<close>.
\<close>

definition same_key :: "uuid \<Rightarrow> nat \<Rightarrow> chunk \<Rightarrow> bool" where
  "same_key did idx c = (chunk_document_id c = did \<and> row_chunk_index c = idx)"

definition store_chunk :: "env \<Rightarrow> job \<Rightarrow> chunk_metadata \<times> vector \<Rightarrow> session \<Rightarrow> (exn + unit) \<times> session" where
  "store_chunk env job ce s =
     (case ce of (chunk_meta, emb) \<Rightarrow>
        (case filter (same_key (job_document_id job) (chunk_index chunk_meta)) (chunks (pending s)) of
           [] \<Rightarrow>
             (let new_chunk = \<lparr> chunk_id = uuid4 env (uuids s),
                                chunk_user_id = job_user_id job,
                                chunk_document_id = job_document_id job,
                                row_chunk_index = chunk_index chunk_meta,
                                chunk_text = cm_text chunk_meta,
                                embedding = Some emb,
                                source_ref = cm_metadata chunk_meta,
                                chunk_page_number = cm_page_number chunk_meta,
                                start_offset = cm_start_time chunk_meta,
                                end_offset = cm_end_time chunk_meta,
                                created_at = utcnow env \<rparr>
              in (Inr (), s\<lparr> pending := (pending s)\<lparr> chunks := chunks (pending s) @ [new_chunk] \<rparr>,
                              uuids := uuids s + 1 \<rparr>))
         | [existing] \<Rightarrow>
             (Inr (), s\<lparr> pending := (pending s)\<lparr> chunks :=
                 map (\<lambda>c. if same_key (job_document_id job) (chunk_index chunk_meta) c
                           then c\<lparr> chunk_text := cm_text chunk_meta,
                                   embedding := Some emb,
                                   start_offset := cm_start_time chunk_meta,
                                   end_offset := cm_end_time chunk_meta,
                                   chunk_page_number := cm_page_number chunk_meta \<rparr>
                           else c)
                     (chunks (pending s)) \<rparr> \<rparr>)
         | _ \<Rightarrow> (Inl MultipleResultsFound, s)))"

fun store_chunks :: "env \<Rightarrow> job \<Rightarrow> (chunk_metadata \<times> vector) list \<Rightarrow> session \<Rightarrow> (exn + unit) \<times> session" where
  "store_chunks env job [] s = (Inr (), s)"
| "store_chunks env job (ce # rest) s =
     (case store_chunk env job ce s of
        (Inl e, s') \<Rightarrow> (Inl e, s')
      | (Inr u, s') \<Rightarrow> store_chunks env job rest s')"

text \<open>
  Steps 4 to 6: embed the chunk texts, check the count, store the chunks,
  mark the job completed and commit.
\<close>

definition embed_and_store ::
  "env \<Rightarrow> uuid \<Rightarrow> job \<Rightarrow> chunk_metadata list \<Rightarrow> session \<Rightarrow> (exn + unit) \<times> session" where
  "embed_and_store env jid job chunks_data s1 =
     (let texts = map cm_text chunks_data; s2 = emit (Embed texts) s1 in
      case generate_embeddings env texts of
        Inl e \<Rightarrow> (Inl e, s2)
      | Inr embeddings \<Rightarrow>
          if length embeddings \<noteq> length chunks_data then
            (Inl (RuntimeError (''Embedding count mismatch! Chunks: '' @ str_nat (length chunks_data)
                    @ '', Embeddings: '' @ str_nat (length embeddings)
                    @ ''. This implies a partial failure in embedding service.'')), s2)
          else
            (case store_chunks env job (zip chunks_data embeddings) s2 of
               (Inl e, s3) \<Rightarrow> (Inl e, s3)
             | (Inr u, s3) \<Rightarrow>
                 (Inr (), commit (s3\<lparr> pending := (pending s3)\<lparr> jobs := (jobs (pending s3))
                            (jid \<mapsto> job\<lparr> status := Completed, updated_at := utcnow env \<rparr>) \<rparr> \<rparr>))))"

text \<open>
  Steps 2 to 6, run after the claim has been committed: reload the job, load
  the document, extract and chunk, refuse an empty chunk list, then embed and
  store.
\<close>

definition run_pipeline :: "env \<Rightarrow> uuid \<Rightarrow> session \<Rightarrow> (exn + unit) \<times> session" where
  "run_pipeline env jid s =
     (case jobs (pending s) jid of
        None \<Rightarrow> (Inl NoResultFound, s)
      | Some job \<Rightarrow>
     (case documents (pending s) (job_document_id job) of
        None \<Rightarrow> (Inl (ValueError (''Document '' @ job_document_id job @ '' not found'')), s)
      | Some document \<Rightarrow>
     (case extract_chunks env document of
        (Inl e, evs) \<Rightarrow> (Inl e, s\<lparr> log := log s @ evs \<rparr>)
      | (Inr chunks_data, evs) \<Rightarrow>
          if chunks_data = [] then
            (Inl (RuntimeError (''No chunks produced from document '' @ job_document_id job
                    @ ''. Source may be empty or unreadable.'')), s\<lparr> log := log s @ evs \<rparr>)
          else embed_and_store env jid job chunks_data (s\<lparr> log := log s @ evs \<rparr>))))"

text \<open>
  The \<open>try\<close> block of \<open>process_job\<close>: the claim; on row count 0 a rollback,
  the look-up of the job, and either \<open>WorkerError\<close> or a plain \<open>return\<close>;
  otherwise the commit of the claim and the pipeline.
\<close>

definition try_block :: "env \<Rightarrow> uuid \<Rightarrow> session \<Rightarrow> (exn + unit) \<times> session" where
  "try_block env jid s =
     (case claim_update env jid s of
        (rowcount, s1) \<Rightarrow>
          if rowcount = 0 then
            (let s2 = rollback s1 in
             case jobs (pending s2) jid of
               None \<Rightarrow> (Inl (WorkerError (''Job not found: '' @ jid)),
                         emit (LogError (''Job not found: '' @ jid)) s2)
             | Some job_check \<Rightarrow> (Inr (), s2))
          else run_pipeline env jid (commit s1))"

text \<open>
  The \<open>except Exception\<close> handler: log, roll back, then (inside its own
  \<open>try\<close>) \<open>UPDATE jobs SET status = failed, error_message = str(e),
  updated_at = now WHERE job_id = :job_id\<close> and commit; when that raises,
  the new exception is logged and dropped. Then \<open>raise\<close> re-raises \<open>e\<close>.
\<close>

definition mark_failed :: "env \<Rightarrow> uuid \<Rightarrow> exn \<Rightarrow> database \<Rightarrow> database" where
  "mark_failed env jid e db =
     (case jobs db jid of
        None \<Rightarrow> db
      | Some j \<Rightarrow> db\<lparr> jobs := (jobs db)
          (jid \<mapsto> j\<lparr> status := Failed, error_message := Some (str_exn e),
                      updated_at := utcnow env \<rparr>) \<rparr>)"

definition except_handler :: "env \<Rightarrow> uuid \<Rightarrow> exn \<Rightarrow> session \<Rightarrow> (exn + unit) \<times> session" where
  "except_handler env jid e s =
     (let s1 = emit (LogError (''Job processing failed: '' @ str_exn e)) s;
          s2 = rollback s1;
          s3 = (case failure_write env of
                  None \<Rightarrow> commit (s2\<lparr> pending := mark_failed env jid e (pending s2) \<rparr>)
                | Some commit_error \<Rightarrow>
                    emit (LogError (''CRITICAL: Failed to save job failure status: ''
                                    @ str_exn commit_error)) s2)
      in (Inl e, s3))"

definition process_job :: "env \<Rightarrow> uuid \<Rightarrow> session \<Rightarrow> (exn + unit) \<times> session" where
  "process_job env jid s =
     (case try_block env jid s of
        (Inr u, s') \<Rightarrow> (Inr (), s')
      | (Inl e, s') \<Rightarrow> except_handler env jid e s')"

text \<open>
  For stating the properties: the database after job \<open>jid\<close>, whose row was
  \<open>j\<close>, has been claimed.
\<close>

definition claimed :: "env \<Rightarrow> uuid \<Rightarrow> job \<Rightarrow> database \<Rightarrow> database" where
  "claimed env jid j db =
     db\<lparr> jobs := (jobs db)(jid \<mapsto> j\<lparr> status := Processing, updated_at := utcnow env \<rparr>) \<rparr>"

text \<open>
  The invariant of the \<open>chunks\<close> table that the storing loop relies on: at
  most one row per \<open>(document_id, chunk_index)\<close>.
\<close>

definition chunk_key :: "chunk \<Rightarrow> uuid \<times> nat" where
  "chunk_key c = (chunk_document_id c, row_chunk_index c)"

definition unique_keys :: "chunk list \<Rightarrow> bool" where
  "unique_keys cs = distinct (map chunk_key cs)"

section \<open>Example data\<close>

text \<open>
  A concrete environment and small databases, on which the properties below
  are instantiated: a clock at 1000, a transcription service that is down, a
  bucket that serves one short text, a sentence splitter that takes a
  non-empty text as one sentence, a tokenizer that counts characters, an
  embedding service that returns one vector per text, and a database that
  accepts the write of the failed status.
\<close>

definition ex_env :: env where
  "ex_env = \<lparr> utcnow = 1000,
               uuid4 = (\<lambda>n. ''chunk-'' @ str_nat n),
               transcribe_audio = (\<lambda>uri. Inl (ExternalError ''speech service unavailable'')),
               download_as_bytes = (\<lambda>bucket blob. Inr ''Hello there.''),
               pdf_reader = (\<lambda>file_bytes. Inr []),
               decode_utf8 = (\<lambda>file_bytes. file_bytes),
               sent_tokenize = (\<lambda>t. if t = [] then [] else [t]),
               count_tokens = length,
               generate_embeddings = (\<lambda>texts. Inr (map (\<lambda>t. [1]) texts)),
               failure_write = None \<rparr>"

definition ex_job :: "ingestion_status \<Rightarrow> job" where
  "ex_job st = \<lparr> job_user_id = ''u'', job_document_id = ''d'', status = st,
                 error_message = None, updated_at = 0 \<rparr>"

definition ex_document :: "document_source_type \<Rightarrow> string \<Rightarrow> document" where
  "ex_document kind uri = \<lparr> doc_user_id = ''u'', doc_source_type = kind,
                            title = ''notes.txt'', source_uri = uri \<rparr>"

definition ex_db :: "ingestion_status \<Rightarrow> document_source_type \<Rightarrow> string \<Rightarrow> database" where
  "ex_db st kind uri = \<lparr> jobs = [''j'' \<mapsto> ex_job st],
                         documents = [''d'' \<mapsto> ex_document kind uri],
                         chunks = [] \<rparr>"

definition empty_db :: database where
  "empty_db = \<lparr> jobs = Map.empty, documents = Map.empty, chunks = [] \<rparr>"

text \<open>A chunk row stored by an earlier run for chunk 0 of document \<open>d\<close>.\<close>

definition old_row :: chunk where
  "old_row = \<lparr> chunk_id = ''chunk-old'', chunk_user_id = ''u'', chunk_document_id = ''d'',
      row_chunk_index = 0, chunk_text = ''Stale text.'', embedding = Some [0],
      source_ref = Some (Some 7, Some 9), chunk_page_number = Some 7,
      start_offset = None, end_offset = None, created_at = 5 \<rparr>"

text \<open>
  Embedding providers: one that returns a vector per text, one that always
  returns a vector too few, and one that does so on its first call only.
\<close>

definition steady_provider :: provider where
  "steady_provider n batch = Inr (map (\<lambda>t. [1]) batch)"

definition short_provider :: provider where
  "short_provider n batch = Inr (map (\<lambda>t. [1]) (butlast batch))"

definition flaky_provider :: provider where
  "flaky_provider n batch = (if n = 0 then short_provider n batch else steady_provider n batch)"

definition ten_texts :: "string list" where
  "ten_texts = [''t0'', ''t1'', ''t2'', ''t3'', ''t4'', ''t5'', ''t6'', ''t7'', ''t8'', ''t9'']"

section \<open>Properties of the chunker\<close>

lemma group_tokens_simps [simp]:
  "group_tokens [] = 0"
  "group_tokens (s # g) = int (token_count s) + group_tokens g"
  "group_tokens (g @ h) = group_tokens g + group_tokens h"
  by (simp_all add: group_tokens_def)

lemma overlap_scan_window:
  assumes "overlap_scan overlap_tokens rest buf cnt = (buf', cnt')"
    and "cnt = group_tokens buf" and "buf = [] \<or> cnt \<le> overlap_tokens"
  shows "cnt' = group_tokens buf' \<and> (buf' = [] \<or> cnt' \<le> overlap_tokens)"
  using assms
proof (induction rest arbitrary: buf cnt)
  case Nil
  then show ?case by auto
next
  case (Cons s rest)
  show ?case
  proof (cases "cnt + int (token_count s) \<le> overlap_tokens")
    case True
    then have "overlap_scan overlap_tokens rest (s # buf) (cnt + int (token_count s)) = (buf', cnt')"
      using Cons.prems(1) by simp
    moreover have "cnt + int (token_count s) = group_tokens (s # buf)"
      using Cons.prems(2) by simp
    ultimately show ?thesis using Cons.IH True by blast
  next
    case False
    then show ?thesis using Cons.prems by auto
  qed
qed

lemma overlap_window_bound:
  assumes "overlap_window overlap_tokens cur = (buf, cnt)"
  shows "cnt = group_tokens buf \<and> (buf = [] \<or> cnt \<le> overlap_tokens)"
  using assms overlap_scan_window [of overlap_tokens "rev cur" "[]" 0 buf cnt]
  by (auto simp: overlap_window_def)

lemma pack_loop_budget:
  assumes "pack_loop Pair max_tokens overlap_tokens sents emitted cur tokens idx = (emitted', cur', idx')"
    and "tokens = group_tokens cur"
    and "cur = [] \<or> within_budget max_tokens overlap_tokens cur"
    and "\<forall>(i, g)\<in>set emitted. within_budget max_tokens overlap_tokens g"
  shows "(cur' = [] \<or> within_budget max_tokens overlap_tokens cur')
       \<and> (\<forall>(i, g)\<in>set emitted'. within_budget max_tokens overlap_tokens g)"
  using assms
proof (induction sents arbitrary: emitted cur tokens idx)
  case Nil
  then show ?case by simp
next
  case (Cons sent rest)
  show ?case
  proof (cases "tokens + int (token_count sent) > max_tokens \<and> cur \<noteq> []")
    case True
    obtain buf cnt where w: "overlap_window overlap_tokens cur = (buf, cnt)"
      by (cases "overlap_window overlap_tokens cur")
    from overlap_window_bound [OF w]
    have b: "cnt = group_tokens buf" "buf = [] \<or> cnt \<le> overlap_tokens" by auto
    have run: "pack_loop Pair max_tokens overlap_tokens rest (emitted @ [(idx, cur)])
        (buf @ [sent]) (cnt + int (token_count sent)) (idx + 1) = (emitted', cur', idx')"
      using Cons.prems(1) True w by simp
    have t: "cnt + int (token_count sent) = group_tokens (buf @ [sent])"
      using b(1) by simp
    have c: "buf @ [sent] = [] \<or> within_budget max_tokens overlap_tokens (buf @ [sent])"
      using b by (auto simp: within_budget_def)
    have "within_budget max_tokens overlap_tokens cur" using True Cons.prems(3) by simp
    then have k: "\<forall>(i, g)\<in>set (emitted @ [(idx, cur)]). within_budget max_tokens overlap_tokens g"
      using Cons.prems(4) by auto
    from Cons.IH [OF run t c k] show ?thesis .
  next
    case False
    have run: "pack_loop Pair max_tokens overlap_tokens rest emitted
        (cur @ [sent]) (tokens + int (token_count sent)) idx = (emitted', cur', idx')"
      using Cons.prems(1) False by auto
    have t: "tokens + int (token_count sent) = group_tokens (cur @ [sent])"
      using Cons.prems(2) by simp
    have c: "cur @ [sent] = [] \<or> within_budget max_tokens overlap_tokens (cur @ [sent])"
    proof (cases "cur = []")
      case True
      then show ?thesis by (simp add: within_budget_def)
    next
      case nonempty: False
      then have "tokens + int (token_count sent) \<le> max_tokens" using False by simp
      then show ?thesis using t by (simp add: within_budget_def)
    qed
    from Cons.IH [OF run t c Cons.prems(4)] show ?thesis .
  qed
qed

text \<open>
  What the packer does guarantee: every chunk has at most \<open>max_tokens\<close>
  tokens, or is a single sentence, or is an overlap window of at most
  \<open>overlap_tokens\<close> tokens followed by one sentence.
\<close>

lemma chunk_groups_budget:
  assumes "(i, g) \<in> set (chunk_groups max_tokens overlap_tokens sents)"
  shows "group_tokens g \<le> max_tokens \<or> length g = 1
      \<or> (g \<noteq> [] \<and> group_tokens (butlast g) \<le> overlap_tokens)"
proof -
  obtain emitted cur idx where
    run: "pack_loop Pair max_tokens overlap_tokens sents [] [] 0 0 = (emitted, cur, idx)"
    by (cases "pack_loop Pair max_tokens overlap_tokens sents ([] :: (nat \<times> sentence list) list) [] 0 0")
  from pack_loop_budget [OF run]
  have inv: "cur = [] \<or> within_budget max_tokens overlap_tokens cur"
    "\<forall>(i, g)\<in>set emitted. within_budget max_tokens overlap_tokens g"
    by simp_all
  have "within_budget max_tokens overlap_tokens g"
  proof (cases "cur = []")
    case True
    then show ?thesis using assms run inv(2) by (auto simp: chunk_groups_def pack_sentences_def)
  next
    case False
    then show ?thesis using assms run inv by (auto simp: chunk_groups_def pack_sentences_def)
  qed
  then show ?thesis by (simp add: within_budget_def)
qed

text \<open>
  C1 (token bound). The claim: every chunk of the packer has at most
  \<open>max_tokens\<close> tokens unless it is a single sentence that alone exceeds
  \<open>max_tokens\<close>. The loop tests \<open>current_tokens + token_count > max_tokens\<close>
  against the buffer before the flush, and after the flush appends the sentence
  to the overlap window without testing again. With the default parameters
  (800, 100) and two sentences of 90 and 750 tokens, the first chunk is the
  90-token sentence, it fits the overlap budget and is carried over whole, and
  the second chunk is both sentences: 840 tokens in two sentences, neither of
  which exceeds 800.
\<close>

theorem token_bound_broken_by_overlap_window:
  "(let a = \<lparr> sent_text = ''A.'', sent_start_time = None, sent_end_time = None,
               sent_page_number = Some 1, token_count = 90 \<rparr>;
        b = \<lparr> sent_text = ''B.'', sent_start_time = None, sent_end_time = None,
               sent_page_number = Some 1, token_count = 750 \<rparr>
    in chunk_groups 800 100 [a, b] = [(0, [a]), (1, [a, b])]
       \<and> map cm_text (pack_sentences finalize_document 800 100 [a, b]) = [''A.'', ''A. B.'']
       \<and> group_tokens [a, b] = 840
       \<and> int (token_count a) \<le> 800 \<and> int (token_count b) \<le> 800)"
  by (simp add: chunk_groups_def pack_sentences_def overlap_window_def group_tokens_def
      finalize_document_def Let_def)

text \<open>
  C2 (packing example). With \<open>max_tokens = 800\<close> and \<open>overlap_tokens = 100\<close>,
  four sentences with token counts 50, 60, 700, 90 are packed into exactly
  three chunks: the first two sentences; the second and third (the 60-token
  sentence is the overlap window); the fourth alone (the 700-token sentence
  does not fit the overlap budget, so the window is empty). The chunk indices
  are 0, 1, 2. This holds for the dictionaries of \<open>chunk_document\<close> and of
  \<open>chunk_transcript\<close> alike.
\<close>

theorem packing_example_50_60_700_90:
  assumes "map token_count [a, b, c, d] = [50, 60, 700, 90]"
  shows "chunk_groups 800 100 [a, b, c, d] = [(0, [a, b]), (1, [b, c]), (2, [d])]
       \<and> pack_sentences finalize_document 800 100 [a, b, c, d] =
           [finalize_document 0 [a, b], finalize_document 1 [b, c], finalize_document 2 [d]]
       \<and> pack_sentences finalize_transcript 800 100 [a, b, c, d] =
           [finalize_transcript 0 [a, b], finalize_transcript 1 [b, c], finalize_transcript 2 [d]]
       \<and> map chunk_index (pack_sentences finalize_document 800 100 [a, b, c, d]) = [0, 1, 2]
       \<and> map chunk_index (pack_sentences finalize_transcript 800 100 [a, b, c, d]) = [0, 1, 2]"
  using assms
  by (simp add: chunk_groups_def pack_sentences_def overlap_window_def numeral_2_eq_2
      finalize_document_def finalize_transcript_def Let_def)

theorem packing_example_50_60_700_90_witness:
  "(let mk = (\<lambda>t n. \<lparr> sent_text = t, sent_start_time = None, sent_end_time = None,
                        sent_page_number = Some 1, token_count = n \<rparr>);
        a = mk ''a.'' 50; b = mk ''b.'' 60; c = mk ''c.'' 700; d = mk ''d.'' 90
    in map token_count [a, b, c, d] = [50, 60, 700, 90]
       \<and> chunk_groups 800 100 [a, b, c, d] = [(0, [a, b]), (1, [b, c]), (2, [d])]
       \<and> map cm_text (pack_sentences finalize_document 800 100 [a, b, c, d]) =
            [''a. b.'', ''b. c.'', ''d.'']
       \<and> map chunk_index (pack_sentences finalize_document 800 100 [a, b, c, d]) = [0, 1, 2])"
proof -
  define mk where "mk = (\<lambda>t n. \<lparr> sent_text = t, sent_start_time = None, sent_end_time = None,
                        sent_page_number = Some (1::int), token_count = n \<rparr>)"
  define a b c d where "a = mk ''a.'' 50" and "b = mk ''b.'' 60"
    and "c = mk ''c.'' 700" and "d = mk ''d.'' 90"
  have h: "map token_count [a, b, c, d] = [50, 60, 700, 90]"
    by (simp add: mk_def a_def b_def c_def d_def)
  note r = packing_example_50_60_700_90 [OF h]
  have groups: "chunk_groups 800 100 [a, b, c, d] = [(0, [a, b]), (1, [b, c]), (2, [d])]"
    using r by (rule conjunct1)
  have chunks: "pack_sentences finalize_document 800 100 [a, b, c, d] =
      [finalize_document 0 [a, b], finalize_document 1 [b, c], finalize_document 2 [d]]"
    using r by blast
  have texts: "map cm_text (pack_sentences finalize_document 800 100 [a, b, c, d]) =
      [''a. b.'', ''b. c.'', ''d.'']"
    unfolding chunks by (simp add: finalize_document_def Let_def mk_def a_def b_def c_def d_def)
  have idx: "map chunk_index (pack_sentences finalize_document 800 100 [a, b, c, d]) = [0, 1, 2]"
    using r by blast
  show ?thesis
    unfolding Let_def mk_def [symmetric] a_def [symmetric] b_def [symmetric]
      c_def [symmetric] d_def [symmetric]
    using h groups texts idx by blast
qed

section \<open>Properties of the query intent helper\<close>






text \<open>
  The two examples of the specification: an explicit start \<open>T\<close> wins over the
  phrase "last week" in the query text, and "yesterday" without an explicit
  filter gives \<open>now\<close> minus one day.
\<close>

lemma explicit_start_ignores_last_week:
  "sf_start_date (build_search_filters (\<lambda>v. Inr 1700000000000000) now
     \<lparr> query = ''What did we decide last week?'',
       filters = Some \<lparr> date_range = Some [''start'' \<mapsto> JString ''2023-11-14T22:13:20''],
                        source_type = None, document_ids = None \<rparr> \<rparr>)
   = Some 1700000000000000"
  by (simp add: build_search_filters_def resolve_start_date_def)

lemma yesterday_without_filter:
  "sf_start_date (build_search_filters date_parse now
     \<lparr> query = ''Notes from Yesterday'', filters = None \<rparr>)
   = Some (now - 86400000000)"
  by (simp add: build_search_filters_def resolve_start_date_def parse_temporal_intent_def
      lower_def lower_char_def timedelta_days_def)

text \<open>
  C10 (unparseable explicit start). When the request has a \<open>date_range\<close> with
  a \<open>"start"\<close> key and parsing its value raises, the filter assembly returns
  normally with no start-date filter, whatever the query text says: the
  exception is swallowed and the recency-phrase inference is not run.
\<close>

theorem unparseable_start_dropped:
  assumes "filters request = Some f"
    and "date_range f = Some dr"
    and "dr ''start'' = Some v"
    and "date_parse v = Inl e"
  shows "sf_start_date (build_search_filters date_parse now request) = None"
proof -
  have "dr \<noteq> Map.empty" using assms(3) by auto
  then show ?thesis
    using assms by (simp add: build_search_filters_def resolve_start_date_def)
qed

theorem unparseable_start_dropped_witness:
  "(let dr = [''start'' \<mapsto> JString ''soon''];
        f = \<lparr> date_range = Some dr, source_type = None, document_ids = None \<rparr>;
        request = \<lparr> query = ''what happened last week'', filters = Some f \<rparr>;
        date_parse = (\<lambda>v. Inl (ValueError ''Unknown string format''))
    in filters request = Some f \<and> date_range f = Some dr
       \<and> dr ''start'' = Some (JString ''soon'')
       \<and> date_parse (JString ''soon'') = Inl (ValueError ''Unknown string format'')
       \<and> parse_temporal_intent 1700000000000000 (query request) \<noteq> None
       \<and> sf_start_date (build_search_filters date_parse 1700000000000000 request) = None)"
proof -
  define dr where "dr = [''start'' \<mapsto> JString ''soon'']"
  define f where "f = \<lparr> date_range = Some dr, source_type = None, document_ids = None \<rparr>"
  define request where "request = \<lparr> query = ''what happened last week'', filters = Some f \<rparr>"
  define date_parse :: "json_value \<Rightarrow> exn + datetime"
    where "date_parse = (\<lambda>v. Inl (ValueError ''Unknown string format''))"
  have h1: "filters request = Some f" by (simp add: request_def)
  have h2: "date_range f = Some dr" by (simp add: f_def)
  have h3: "dr ''start'' = Some (JString ''soon'')" by (simp add: dr_def)
  have h4: "date_parse (JString ''soon'') = Inl (ValueError ''Unknown string format'')"
    by (simp add: date_parse_def)
  have h5: "parse_temporal_intent 1700000000000000 (query request) \<noteq> None"
    by (simp add: request_def parse_temporal_intent_def lower_def lower_char_def)
  have r: "sf_start_date (build_search_filters date_parse 1700000000000000 request) = None"
    using h1 h2 h3 h4 by (rule unparseable_start_dropped)
  show ?thesis
    unfolding Let_def dr_def [symmetric] f_def [symmetric] request_def [symmetric]
      date_parse_def [symmetric]
    using h1 h2 h3 h4 h5 r by blast
qed

section \<open>Properties of the hybrid retrieval engine\<close>





















section \<open>Properties of the ingestion worker\<close>

lemma committed_emit [simp]: "committed (emit ev s) = committed s"
  and pending_emit [simp]: "pending (emit ev s) = pending s"
  and log_emit [simp]: "log (emit ev s) = log s @ [ev]"
  and uuids_emit [simp]: "uuids (emit ev s) = uuids s"
  by (simp_all add: emit_def)

lemma session_commit [simp]:
  "committed (commit s) = pending s" "pending (commit s) = pending s"
  "log (commit s) = log s @ [Commit (pending s)]" "uuids (commit s) = uuids s"
  by (simp_all add: commit_def)

lemma session_rollback [simp]:
  "committed (rollback s) = committed s" "pending (rollback s) = committed s"
  "log (rollback s) = log s @ [Rollback]" "uuids (rollback s) = uuids s"
  by (simp_all add: rollback_def)

lemma session_new [simp]:
  "committed (new_session db) = db" "pending (new_session db) = db"
  "log (new_session db) = []" "uuids (new_session db) = 0"
  by (simp_all add: new_session_def)

lemma except_handler_result [simp]: "fst (except_handler env jid e s) = Inl e"
  by (simp add: except_handler_def Let_def)

lemma except_handler_committed:
  "committed (snd (except_handler env jid e s)) =
     (case failure_write env of None \<Rightarrow> mark_failed env jid e (committed s) | Some ce \<Rightarrow> committed s)"
  by (simp add: except_handler_def Let_def split: option.splits)

lemma except_handler_log:
  "\<exists>evs. log (snd (except_handler env jid e s)) = log s @ evs"
  by (simp add: except_handler_def Let_def split: option.splits)

lemma chunks_mark_failed [simp]: "chunks (mark_failed env jid e db) = chunks db"
  by (simp add: mark_failed_def split: option.splits)

lemma mark_failed_absent: "jobs db jid = None \<Longrightarrow> mark_failed env jid e db = db"
  by (simp add: mark_failed_def)


lemma store_chunk_keeps:
  "store_chunk env job ce s = (r, s') \<Longrightarrow> log s' = log s \<and> committed s' = committed s"
  by (auto simp: store_chunk_def Let_def split: prod.splits list.splits)

lemma store_chunks_keeps:
  "store_chunks env job ces s = (r, s') \<Longrightarrow> log s' = log s \<and> committed s' = committed s"
proof (induction ces arbitrary: s)
  case Nil
  then show ?case by auto
next
  case (Cons ce ces)
  obtain r1 s1 where one: "store_chunk env job ce s = (r1, s1)" by (cases "store_chunk env job ce s")
  then have keep: "log s1 = log s \<and> committed s1 = committed s" by (rule store_chunk_keeps)
  show ?case
  proof (cases r1)
    case (Inl e)
    then show ?thesis using Cons.prems one keep by simp
  next
    case (Inr u)
    then have "store_chunks env job ces s1 = (r, s')" using Cons.prems one by simp
    then show ?thesis using Cons.IH keep by fastforce
  qed
qed


lemma embed_and_store_log:
  assumes "embed_and_store env jid job cd s = (r, s')"
  shows "\<exists>evs. log s' = log s @ evs"
proof (cases "generate_embeddings env (map cm_text cd)")
  case (Inl e)
  then show ?thesis using assms by (auto simp: embed_and_store_def Let_def)
next
  case (Inr embs)
  show ?thesis
  proof (cases "length embs \<noteq> length cd")
    case True
    then show ?thesis using assms Inr by (auto simp: embed_and_store_def Let_def)
  next
    case False
    obtain r3 s3 where st: "store_chunks env job (zip cd embs) (emit (Embed (map cm_text cd)) s) = (r3, s3)"
      by (cases "store_chunks env job (zip cd embs) (emit (Embed (map cm_text cd)) s)")
    then have "log s3 = log s @ [Embed (map cm_text cd)]"
      using store_chunks_keeps [OF st] by simp
    then show ?thesis using assms Inr False st
      by (cases r3) (auto simp: embed_and_store_def Let_def)
  qed
qed



text \<open>The pipeline, by cases.\<close>

lemma run_pipeline_cases:
  assumes "run_pipeline env jid s = (r, s')"
  obtains
    (no_job) "jobs (pending s) jid = None" "r = Inl NoResultFound" "s' = s"
  | (no_document) job where "jobs (pending s) jid = Some job"
      "documents (pending s) (job_document_id job) = None"
      "r = Inl (ValueError (''Document '' @ job_document_id job @ '' not found''))" "s' = s"
  | (extract_raises) job document e evs where "jobs (pending s) jid = Some job"
      "documents (pending s) (job_document_id job) = Some document"
      "extract_chunks env document = (Inl e, evs)" "r = Inl e" "s' = s\<lparr> log := log s @ evs \<rparr>"
  | (no_chunks) job document evs where "jobs (pending s) jid = Some job"
      "documents (pending s) (job_document_id job) = Some document"
      "extract_chunks env document = (Inr [], evs)"
      "r = Inl (RuntimeError (''No chunks produced from document '' @ job_document_id job
                    @ ''. Source may be empty or unreadable.''))"
      "s' = s\<lparr> log := log s @ evs \<rparr>"
  | (chunks) job document chunks_data evs where "jobs (pending s) jid = Some job"
      "documents (pending s) (job_document_id job) = Some document"
      "extract_chunks env document = (Inr chunks_data, evs)" "chunks_data \<noteq> []"
      "embed_and_store env jid job chunks_data (s\<lparr> log := log s @ evs \<rparr>) = (r, s')"
proof (cases "jobs (pending s) jid")
  case None
  with assms have "r = Inl NoResultFound" and "s' = s"
    by (simp_all add: run_pipeline_def)
  with None show ?thesis by (rule no_job)
next
  case (Some job)
  note j = this
  show ?thesis
  proof (cases "documents (pending s) (job_document_id job)")
    case None
    with assms j
    have "r = Inl (ValueError (''Document '' @ job_document_id job @ '' not found''))" and "s' = s"
      by (simp_all add: run_pipeline_def)
    with j None show ?thesis by (rule no_document)
  next
    case (Some document)
    note d = this
    obtain x evs where ex: "extract_chunks env document = (x, evs)"
      by (cases "extract_chunks env document")
    show ?thesis
    proof (cases x)
      case (Inl e)
      with assms j d ex have "r = Inl e" and "s' = s\<lparr> log := log s @ evs \<rparr>"
        by (simp_all add: run_pipeline_def)
      with j d ex [unfolded Inl] show ?thesis by (rule extract_raises)
    next
      case (Inr chunks_data)
      show ?thesis
      proof (cases "chunks_data = []")
        case True
        with assms j d ex Inr
        have "r = Inl (RuntimeError (''No chunks produced from document '' @ job_document_id job
                    @ ''. Source may be empty or unreadable.''))"
          and "s' = s\<lparr> log := log s @ evs \<rparr>"
          by (simp_all add: run_pipeline_def)
        with j d ex [unfolded Inr True] show ?thesis by (rule no_chunks)
      next
        case False
        with assms j d ex Inr
        have "embed_and_store env jid job chunks_data (s\<lparr> log := log s @ evs \<rparr>) = (r, s')"
          by (simp add: run_pipeline_def)
        with j d ex [unfolded Inr] False show ?thesis by (rule chunks)
      qed
    qed
  qed
qed

lemma run_pipeline_log:
  assumes "run_pipeline env jid s = (r, s')"
  shows "\<exists>evs. log s' = log s @ evs"
  using assms
proof (cases rule: run_pipeline_cases)
  case (chunks job document chunks_data evs)
  from embed_and_store_log [OF chunks(5)] show ?thesis by auto
qed auto


text \<open>The try block, by cases of the claim.\<close>

lemma try_block_missing:
  assumes "jobs db jid = None"
  shows "try_block env jid (new_session db) =
     (Inl (WorkerError (''Job not found: '' @ jid)),
      \<lparr> committed = db, pending = db,
        log = [Rollback, LogError (''Job not found: '' @ jid)], uuids = 0 \<rparr>)"
  using assms
  by (simp add: try_block_def claim_update_def Let_def rollback_def emit_def new_session_def)

lemma try_block_not_pending:
  assumes "jobs db jid = Some j" "status j \<noteq> Pending"
  shows "try_block env jid (new_session db) =
     (Inr (), \<lparr> committed = db, pending = db, log = [Rollback], uuids = 0 \<rparr>)"
  using assms
  by (simp add: try_block_def claim_update_def Let_def rollback_def emit_def new_session_def)

lemma try_block_pending:
  assumes "jobs db jid = Some j" "status j = Pending"
  shows "try_block env jid (new_session db) =
     run_pipeline env jid
       \<lparr> committed = claimed env jid j db, pending = claimed env jid j db,
         log = [Commit (claimed env jid j db)], uuids = 0 \<rparr>"
  using assms
  by (simp add: try_block_def claim_update_def Let_def commit_def emit_def new_session_def
      claimed_def)



text \<open>
  C4 (job claim). A run of \<open>process_job\<close> in a fresh session, by the state
  of the job row. No row: the run fails with \<open>WorkerError "Job not found"\<close>
  and the database is left as it was. A row that is not pending (processing,
  completed or failed): the run returns normally, having done nothing but the
  rollback of the empty claim; no commit, no collaborator call, the database
  untouched. A pending row: the first thing the run does to the outside is
  the commit of the claim, which makes the row \<open>processing\<close>; everything else
  (collaborator calls, later commits) comes after it.
\<close>

theorem claim_step_outcomes:
  "(jobs db jid = None \<longrightarrow>
        fst (process_job env jid (new_session db)) = Inl (WorkerError (''Job not found: '' @ jid))
      \<and> committed (snd (process_job env jid (new_session db))) = db)
   \<and> (\<forall>j. jobs db jid = Some j \<and> status j \<noteq> Pending \<longrightarrow>
        process_job env jid (new_session db) =
          (Inr (), \<lparr> committed = db, pending = db, log = [Rollback], uuids = 0 \<rparr>))
   \<and> (\<forall>j. jobs db jid = Some j \<and> status j = Pending \<longrightarrow>
        jobs (claimed env jid j db) jid = Some (j\<lparr> status := Processing, updated_at := utcnow env \<rparr>)
      \<and> (\<exists>rest. log (snd (process_job env jid (new_session db))) =
             Commit (claimed env jid j db) # rest))"
proof (intro conjI allI impI)
  assume none: "jobs db jid = None"
  note tb = try_block_missing [OF none, of env]
  show "fst (process_job env jid (new_session db)) = Inl (WorkerError (''Job not found: '' @ jid))"
    by (simp add: process_job_def tb)
  show "committed (snd (process_job env jid (new_session db))) = db"
    using none
    by (simp add: process_job_def tb except_handler_committed mark_failed_absent split: option.splits)
next
  fix j assume "jobs db jid = Some j \<and> status j \<noteq> Pending"
  then show "process_job env jid (new_session db) =
          (Inr (), \<lparr> committed = db, pending = db, log = [Rollback], uuids = 0 \<rparr>)"
    by (simp add: process_job_def try_block_not_pending)
next
  fix j assume "jobs db jid = Some j \<and> status j = Pending"
  show "jobs (claimed env jid j db) jid = Some (j\<lparr> status := Processing, updated_at := utcnow env \<rparr>)"
    by (simp add: claimed_def)
next
  fix j assume a: "jobs db jid = Some j \<and> status j = Pending"
  let ?s = "\<lparr> committed = claimed env jid j db, pending = claimed env jid j db,
         log = [Commit (claimed env jid j db)], uuids = 0 \<rparr>"
  obtain r s' where run: "run_pipeline env jid ?s = (r, s')" by (cases "run_pipeline env jid ?s")
  then have tb: "try_block env jid (new_session db) = (r, s')"
    using a try_block_pending [of db jid j env] by simp
  from run_pipeline_log [OF run] obtain evs where l: "log s' = Commit (claimed env jid j db) # evs"
    by auto
  show "\<exists>rest. log (snd (process_job env jid (new_session db))) = Commit (claimed env jid j db) # rest"
  proof (cases r)
    case (Inl e)
    from except_handler_log [of env jid e s'] obtain evs' where
      "log (snd (except_handler env jid e s')) = log s' @ evs'" by blast
    then show ?thesis using tb Inl l by (simp add: process_job_def)
  next
    case (Inr u)
    then show ?thesis using tb l by (simp add: process_job_def)
  qed
qed








theorem claim_step_outcomes_witness:
  "jobs empty_db ''j'' = None
   \<and> fst (process_job ex_env ''j'' (new_session empty_db)) = Inl (WorkerError ''Job not found: j'')
   \<and> committed (snd (process_job ex_env ''j'' (new_session empty_db))) = empty_db
   \<and> jobs (ex_db Completed Text ''gs://b/notes.txt'') ''j'' = Some (ex_job Completed)
   \<and> status (ex_job Completed) \<noteq> Pending
   \<and> process_job ex_env ''j'' (new_session (ex_db Completed Text ''gs://b/notes.txt'')) =
       (Inr (), \<lparr> committed = ex_db Completed Text ''gs://b/notes.txt'',
                  pending = ex_db Completed Text ''gs://b/notes.txt'',
                  log = [Rollback], uuids = 0 \<rparr>)
   \<and> jobs (ex_db Pending Text ''gs://b/notes.txt'') ''j'' = Some (ex_job Pending)
   \<and> status (ex_job Pending) = Pending
   \<and> (\<exists>rest. log (snd (process_job ex_env ''j'' (new_session (ex_db Pending Text ''gs://b/notes.txt'')))) =
         Commit (claimed ex_env ''j'' (ex_job Pending) (ex_db Pending Text ''gs://b/notes.txt'')) # rest)"
proof -
  have a: "jobs empty_db ''j'' = None" by (simp add: empty_db_def)
  have b: "jobs (ex_db Completed Text ''gs://b/notes.txt'') ''j'' = Some (ex_job Completed)
      \<and> status (ex_job Completed) \<noteq> Pending"
    by (simp add: ex_db_def ex_job_def)
  have c: "jobs (ex_db Pending Text ''gs://b/notes.txt'') ''j'' = Some (ex_job Pending)
      \<and> status (ex_job Pending) = Pending"
    by (simp add: ex_db_def ex_job_def)
  from claim_step_outcomes [of empty_db "''j''" ex_env] a
  have a': "fst (process_job ex_env ''j'' (new_session empty_db)) = Inl (WorkerError ''Job not found: j'')
      \<and> committed (snd (process_job ex_env ''j'' (new_session empty_db))) = empty_db"
    by simp
  from claim_step_outcomes [of "ex_db Completed Text ''gs://b/notes.txt''" "''j''" ex_env] b
  have b': "process_job ex_env ''j'' (new_session (ex_db Completed Text ''gs://b/notes.txt'')) =
       (Inr (), \<lparr> committed = ex_db Completed Text ''gs://b/notes.txt'',
                  pending = ex_db Completed Text ''gs://b/notes.txt'',
                  log = [Rollback], uuids = 0 \<rparr>)"
    by blast
  from claim_step_outcomes [of "ex_db Pending Text ''gs://b/notes.txt''" "''j''" ex_env] c
  have c': "\<exists>rest. log (snd (process_job ex_env ''j'' (new_session (ex_db Pending Text ''gs://b/notes.txt'')))) =
         Commit (claimed ex_env ''j'' (ex_job Pending) (ex_db Pending Text ''gs://b/notes.txt'')) # rest"
    by blast
  from a a' b b' c c' show ?thesis by (intro conjI) blast+
qed




lemma chunking_ex: "chunk_document (sent_tokenize ex_env) (count_tokens ex_env)
   (extract_document_text (pdf_reader ex_env) (decode_utf8 ex_env) ''Hello there.'' ''txt'') 800 100
  = [\<lparr> cm_text = ''Hello there.'', cm_start_time = None, cm_end_time = None, chunk_index = 0,
       cm_page_number = Some 1, cm_metadata = Some (Some 1, Some 1) \<rparr>]"
  by (simp add: chunk_document_def extract_document_text_def extract_text_file_def ex_env_def
      page_sentences_def pack_sentences_def finalize_document_def Let_def)

lemma extract_ex: "extract_chunks ex_env (ex_document Text ''gs://b/notes.txt'') =
   (Inr [\<lparr> cm_text = ''Hello there.'', cm_start_time = None, cm_end_time = None, chunk_index = 0,
       cm_page_number = Some 1, cm_metadata = Some (Some 1, Some 1) \<rparr>], [Download ''b'' ''notes.txt''])"
proof -
  have d: "download_as_bytes ex_env ''b'' ''notes.txt'' = Inr ''Hello there.''"
    by (simp add: ex_env_def)
  have t: "title_ext ''notes.txt'' = ''txt''"
    by (simp add: title_ext_def lower_def lower_char_def)
  show ?thesis
    by (simp add: extract_chunks_def ex_document_def split_once_def d t chunking_ex Let_def)
qed

lemma same_key_chunk_key: "same_key did idx c \<longleftrightarrow> chunk_key c = (did, idx)"
  by (auto simp: same_key_def chunk_key_def)

lemma filter_unique_key:
  "distinct (map chunk_key cs) \<Longrightarrow> length (filter (\<lambda>c. chunk_key c = k) cs) \<le> 1"
proof (induction cs)
  case Nil
  then show ?case by simp
next
  case (Cons c cs)
  show ?case
  proof (cases "chunk_key c = k")
    case True
    then have "k \<notin> chunk_key ` set cs" using Cons.prems by auto
    then have "filter (\<lambda>c. chunk_key c = k) cs = []" by (auto simp: filter_empty_conv)
    then show ?thesis using True by simp
  next
    case False
    then show ?thesis using Cons by simp
  qed
qed

text \<open>
  On a table with at most one row per key, one iteration of the storing loop
  never raises, keeps at most one row per key, and changes the number of rows
  only when the key is new.
\<close>

lemma store_chunk_keeps_unique_keys:
  assumes "unique_keys (chunks (pending s))"
    and "store_chunk env job (chunk_meta, emb) s = (r, s')"
  shows "r = Inr ()"
    and "unique_keys (chunks (pending s'))"
    and "length (chunks (pending s')) =
          (if (job_document_id job, chunk_index chunk_meta) \<in> chunk_key ` set (chunks (pending s))
           then length (chunks (pending s)) else Suc (length (chunks (pending s))))"
proof -
  let ?k = "(job_document_id job, chunk_index chunk_meta)"
  let ?cs = "chunks (pending s)"
  let ?m = "filter (same_key (job_document_id job) (chunk_index chunk_meta)) ?cs"
  have "same_key (job_document_id job) (chunk_index chunk_meta) = (\<lambda>c. chunk_key c = ?k)"
    by (rule ext) (rule same_key_chunk_key)
  then have m: "?m = filter (\<lambda>c. chunk_key c = ?k) ?cs"
    by (rule arg_cong)
  have le: "length ?m \<le> 1"
    unfolding m using assms(1) unfolding unique_keys_def by (rule filter_unique_key)
  have mem: "?k \<in> chunk_key ` set ?cs \<longleftrightarrow> ?m \<noteq> []"
    unfolding m by (force simp: filter_empty_conv image_iff)
  show "r = Inr ()" and "unique_keys (chunks (pending s'))"
    and "length (chunks (pending s')) =
          (if ?k \<in> chunk_key ` set ?cs then length ?cs else Suc (length ?cs))"
  proof (atomize (full), cases ?m)
    case Nil
    then have "?k \<notin> chunk_key ` set ?cs" using mem by simp
    then show "r = Inr () \<and> unique_keys (chunks (pending s')) \<and>
      length (chunks (pending s')) =
          (if ?k \<in> chunk_key ` set ?cs then length ?cs else Suc (length ?cs))"
      using assms Nil
      by (auto simp: store_chunk_def Let_def unique_keys_def chunk_key_def)
  next
    case (Cons x xs)
    then have xs: "xs = []" using le by simp
    have inn: "?k \<in> chunk_key ` set ?cs" using mem Cons by simp
    have keys: "map chunk_key (map (\<lambda>c. if same_key (job_document_id job) (chunk_index chunk_meta) c
                           then c\<lparr> chunk_text := cm_text chunk_meta,
                                   embedding := Some emb,
                                   start_offset := cm_start_time chunk_meta,
                                   end_offset := cm_end_time chunk_meta,
                                   chunk_page_number := cm_page_number chunk_meta \<rparr>
                           else c) ?cs) = map chunk_key ?cs"
      by (simp add: chunk_key_def)
    have r: "r = Inr ()"
      and s': "chunks (pending s') =
          map (\<lambda>c. if same_key (job_document_id job) (chunk_index chunk_meta) c
                           then c\<lparr> chunk_text := cm_text chunk_meta,
                                   embedding := Some emb,
                                   start_offset := cm_start_time chunk_meta,
                                   end_offset := cm_end_time chunk_meta,
                                   chunk_page_number := cm_page_number chunk_meta \<rparr>
                           else c) ?cs"
      using assms(2) Cons xs by (auto simp: store_chunk_def)
    have u: "unique_keys (chunks (pending s'))"
      unfolding unique_keys_def s' keys using assms(1) by (simp add: unique_keys_def)
    have l: "length (chunks (pending s')) = length ?cs"
      unfolding s' by simp
    show "r = Inr () \<and> unique_keys (chunks (pending s')) \<and>
      length (chunks (pending s')) =
          (if ?k \<in> chunk_key ` set ?cs then length ?cs else Suc (length ?cs))"
      using r u l inn by simp
  qed
qed

lemma process_job_returns:
  "fst (try_block env jid s) = Inr u \<Longrightarrow> process_job env jid s = (Inr (), snd (try_block env jid s))"
  by (cases "try_block env jid s") (simp add: process_job_def)

text \<open>
  C8 (idempotent chunk persistence). The claim: persisting a chunk whose
  \<open>(document_id, chunk_index)\<close> is already stored overwrites the row's text,
  embedding, offsets, page, provenance and timestamp in place. A full run on
  a pending job whose document already has a row for chunk 0, with provenance
  pages 7 to 9 and creation time 5: the new chunk 0 comes from page 1. The run
  completes and leaves one row, with the new text, embedding and page number,
  but with the provenance payload (\<open>source_ref\<close>) still pages 7 to 9 and the
  timestamp still 5. The insert branch of the same loop, run on the same
  document without the stored row, does write the provenance (pages 1 to 1).
\<close>

theorem upsert_leaves_provenance_stale:
  "(let db = (ex_db Pending Text ''gs://b/notes.txt'')\<lparr> chunks := [old_row] \<rparr>;
        db' = committed (snd (process_job ex_env ''j'' (new_session db)));
        db0 = ex_db Pending Text ''gs://b/notes.txt'';
        db0' = committed (snd (process_job ex_env ''j'' (new_session db0)))
    in fst (process_job ex_env ''j'' (new_session db)) = Inr ()
     \<and> map_option status (jobs db' ''j'') = Some Completed
     \<and> chunks db' = [old_row\<lparr> chunk_text := ''Hello there.'', embedding := Some [1],
                               chunk_page_number := Some 1 \<rparr>]
     \<and> map source_ref (chunks db') = [Some (Some 7, Some 9)]
     \<and> map created_at (chunks db') = [5]
     \<and> fst (process_job ex_env ''j'' (new_session db0)) = Inr ()
     \<and> map source_ref (chunks db0') = [Some (Some 1, Some 1)]
     \<and> map created_at (chunks db0') = [1000])"
proof -
  define db0 where "db0 = ex_db Pending Text ''gs://b/notes.txt''"
  define db where "db = db0\<lparr> chunks := [old_row] \<rparr>"
  have h1: "jobs db ''j'' = Some (ex_job Pending)" by (simp add: db_def db0_def ex_db_def)
  have h0: "jobs db0 ''j'' = Some (ex_job Pending)" by (simp add: db0_def ex_db_def)
  have h2: "status (ex_job Pending) = Pending" by (simp add: ex_job_def)
  have g: "generate_embeddings ex_env [''Hello there.''] = Inr [[1]]" by (simp add: ex_env_def)
  have u: "utcnow ex_env = 1000" "uuid4 ex_env 0 = ''chunk-0''"
    by (simp_all add: ex_env_def str_nat.simps)
  have r: "fst (try_block ex_env ''j'' (new_session db)) = Inr ()"
    unfolding try_block_pending [OF h1 h2]
    apply (simp add: run_pipeline_def claimed_def db_def db0_def ex_db_def)
    apply (simp add: ex_job_def extract_ex embed_and_store_def g Let_def)
    apply (simp add: store_chunk_def same_key_def old_row_def emit_def commit_def u)
    done
  have c: "chunks (committed (snd (try_block ex_env ''j'' (new_session db)))) =
      [old_row\<lparr> chunk_text := ''Hello there.'', embedding := Some [1], chunk_page_number := Some 1 \<rparr>]"
    unfolding try_block_pending [OF h1 h2]
    apply (simp add: run_pipeline_def claimed_def db_def db0_def ex_db_def)
    apply (simp add: ex_job_def extract_ex embed_and_store_def g Let_def)
    apply (simp add: store_chunk_def same_key_def old_row_def emit_def commit_def u)
    done
  have j: "map_option status (jobs (committed (snd (try_block ex_env ''j'' (new_session db)))) ''j'') =
      Some Completed"
    unfolding try_block_pending [OF h1 h2]
    apply (simp add: run_pipeline_def claimed_def db_def db0_def ex_db_def)
    apply (simp add: ex_job_def extract_ex embed_and_store_def g Let_def)
    apply (simp add: store_chunk_def same_key_def old_row_def emit_def commit_def u)
    done
  have r0: "fst (try_block ex_env ''j'' (new_session db0)) = Inr ()"
    unfolding try_block_pending [OF h0 h2]
    apply (simp add: run_pipeline_def claimed_def db0_def ex_db_def)
    apply (simp add: ex_job_def extract_ex embed_and_store_def g Let_def)
    apply (simp add: store_chunk_def same_key_def emit_def commit_def u)
    done
  have c0: "chunks (committed (snd (try_block ex_env ''j'' (new_session db0)))) =
      [\<lparr> chunk_id = ''chunk-0'', chunk_user_id = ''u'', chunk_document_id = ''d'',
         row_chunk_index = 0, chunk_text = ''Hello there.'', embedding = Some [1],
         source_ref = Some (Some 1, Some 1), chunk_page_number = Some 1,
         start_offset = None, end_offset = None, created_at = 1000 \<rparr>]"
    unfolding try_block_pending [OF h0 h2]
    apply (simp add: run_pipeline_def claimed_def db0_def ex_db_def)
    apply (simp add: ex_job_def extract_ex embed_and_store_def g Let_def)
    apply (simp add: store_chunk_def same_key_def emit_def commit_def u)
    done
  note pj = process_job_returns [OF r]
  note pj0 = process_job_returns [OF r0]
  have c': "map source_ref (chunks (committed (snd (try_block ex_env ''j'' (new_session db))))) =
      [Some (Some 7, Some 9)]"
    "map created_at (chunks (committed (snd (try_block ex_env ''j'' (new_session db))))) = [5]"
    unfolding c by (simp_all add: old_row_def)
  have c0': "map source_ref (chunks (committed (snd (try_block ex_env ''j'' (new_session db0))))) =
      [Some (Some 1, Some 1)]"
    "map created_at (chunks (committed (snd (try_block ex_env ''j'' (new_session db0))))) = [1000]"
    unfolding c0 by simp_all
  show ?thesis
    unfolding Let_def db0_def [symmetric] db_def [symmetric] pj pj0
    using c c' c0' j by simp
qed

section \<open>Properties of the embedding batch validator\<close>

lemma embed_batches_stop:
  "\<not> (0 < batch_limit \<and> i < length texts) \<Longrightarrow>
     embed_batches batch_limit provider texts i acc rq = (Inr acc, rq)"
  by (subst embed_batches.simps) auto

lemma embed_batches_step:
  "0 < batch_limit \<Longrightarrow> i < length texts \<Longrightarrow>
     embed_batches batch_limit provider texts i acc rq =
       (case provider (length rq) (take (nat batch_limit) (drop i texts)) of
           Inl e \<Rightarrow> (Inl e, rq @ [take (nat batch_limit) (drop i texts)])
         | Inr embeddings \<Rightarrow>
             if length embeddings \<noteq> length (take (nat batch_limit) (drop i texts)) then
               (Inl (RuntimeError (''Embedding count mismatch. Requested: ''
                       @ str_nat (length (take (nat batch_limit) (drop i texts))) @ '', Received: ''
                       @ str_nat (length embeddings)
                       @ ''. This indicates a partial failure or API issue.'')),
                rq @ [take (nat batch_limit) (drop i texts)])
             else embed_batches batch_limit provider texts (i + nat batch_limit)
                    (acc @ embeddings) (rq @ [take (nat batch_limit) (drop i texts)]))"
  by (subst embed_batches.simps) (simp add: Let_def)

lemma embed_batches_returns:
  assumes "embed_batches batch_limit provider texts i acc rq = (Inr v, rq')"
  shows "\<exists>new vs. rq' = rq @ new \<and> v = acc @ vs
           \<and> (0 < batch_limit \<longrightarrow> concat new = drop i texts \<and> length vs = length (drop i texts))
           \<and> (\<forall>b\<in>set new. length b \<le> nat batch_limit)
           \<and> (\<forall>k<length new. \<exists>embs. provider (length rq + k) (new ! k) = Inr embs
                  \<and> length embs = length (new ! k))"
  using assms
proof (induction batch_limit provider texts i acc rq rule: embed_batches.induct)
  case (1 batch_limit provider texts i all_embeddings requests)
  show ?case
  proof (cases "0 < batch_limit \<and> i < length texts")
    case False
    then have "rq' = requests" and "v = all_embeddings"
      using "1.prems" embed_batches_stop [of batch_limit i texts provider all_embeddings requests]
      by simp_all
    then show ?thesis using False by auto
  next
    case True
    define batch where "batch = take (nat batch_limit) (drop i texts)"
    have batch: "batch = take (nat batch_limit) (drop i texts)" by (simp add: batch_def)
    have step: "(case provider (length requests) batch of
           Inl e \<Rightarrow> (Inl e, requests @ [batch])
         | Inr embeddings \<Rightarrow>
             if length embeddings \<noteq> length batch then
               (Inl (RuntimeError (''Embedding count mismatch. Requested: ''
                       @ str_nat (length batch) @ '', Received: ''
                       @ str_nat (length embeddings)
                       @ ''. This indicates a partial failure or API issue.'')),
                requests @ [batch])
             else embed_batches batch_limit provider texts (i + nat batch_limit)
                    (all_embeddings @ embeddings) (requests @ [batch])) = (Inr v, rq')"
      using "1.prems" True unfolding batch
      by (simp only: embed_batches_step)
    obtain embs where p: "provider (length requests) batch = Inr embs"
      using step by (cases "provider (length requests) batch") simp_all
    have len: "length embs = length batch"
      using step p by (cases "length embs = length batch") simp_all
    have rec: "embed_batches batch_limit provider texts (i + nat batch_limit)
                  (all_embeddings @ embs) (requests @ [batch]) = (Inr v, rq')"
      using step p len by simp
    have len': "\<not> length embs \<noteq> length batch" using len by simp
    from "1.IH" [OF True batch p len' rec]
    obtain new vs where ih: "rq' = (requests @ [batch]) @ new" "v = (all_embeddings @ embs) @ vs"
      "concat new = drop (i + nat batch_limit) texts"
      "length vs = length (drop (i + nat batch_limit) texts)"
      "\<forall>b\<in>set new. length b \<le> nat batch_limit"
      "\<forall>k<length new. \<exists>embs. provider (length (requests @ [batch]) + k) (new ! k) = Inr embs
                  \<and> length embs = length (new ! k)"
      using True by auto
    have dd: "drop (i + nat batch_limit) texts = drop (nat batch_limit) (drop i texts)"
      by (simp add: add.commute)
    have "concat (batch # new) = batch @ drop (nat batch_limit) (drop i texts)"
      by (simp only: concat.simps ih(3) dd)
    also have "\<dots> = drop i texts"
      unfolding batch by (rule append_take_drop_id)
    finally have cat: "concat (batch # new) = drop i texts" .
    have "length (embs @ vs) = length batch + length (concat new)"
      using len ih(3,4) by simp
    also have "\<dots> = length (concat (batch # new))" by simp
    finally have lenv: "length (embs @ vs) = length (drop i texts)"
      by (simp only: cat)
    have bound: "\<forall>b\<in>set (batch # new). length b \<le> nat batch_limit"
      using ih(5) by (simp add: batch_def)
    have resp: "\<forall>k<length (batch # new). \<exists>embs. provider (length requests + k) ((batch # new) ! k) = Inr embs
                  \<and> length embs = length ((batch # new) ! k)"
    proof (intro allI impI)
      fix k assume k: "k < length (batch # new)"
      show "\<exists>embs. provider (length requests + k) ((batch # new) ! k) = Inr embs
                  \<and> length embs = length ((batch # new) ! k)"
      proof (cases k)
        case 0
        then show ?thesis using p len by simp
      next
        case (Suc k')
        then have "k' < length new" using k by simp
        then show ?thesis using ih(6) Suc by fastforce
      qed
    qed
    have eqs: "rq' = requests @ (batch # new)" "v = all_embeddings @ (embs @ vs)"
      using ih(1,2) by simp_all
    show ?thesis
      apply (rule exI [of _ "batch # new"])
      apply (rule exI [of _ "embs @ vs"])
      using eqs cat lenv bound resp apply (intro conjI impI)
           apply assumption+
      done
  qed
qed


lemma attempt_returns:
  assumes "0 < batch_limit"
    and "generate_embeddings_attempt batch_limit provider texts rq = (Inr v, rq')"
  shows "\<exists>new. rq' = rq @ new \<and> concat new = texts \<and> length v = length texts
           \<and> (\<forall>b\<in>set new. length b \<le> nat batch_limit)
           \<and> (\<forall>k<length new. \<exists>embs. provider (length rq + k) (new ! k) = Inr embs
                  \<and> length embs = length (new ! k))"
proof (cases "texts = []")
  case True
  then have "rq' = rq @ []" "v = []" using assms(2) by (simp_all add: generate_embeddings_attempt_def)
  then show ?thesis using True by auto
next
  case False
  then have "embed_batches batch_limit provider texts 0 [] rq = (Inr v, rq')"
    using assms by (simp add: generate_embeddings_attempt_def)
  from embed_batches_returns [OF this] assms(1)
  obtain new vs where "rq' = rq @ new" "v = [] @ vs" "concat new = drop 0 texts"
    "length vs = length (drop 0 texts)" "\<forall>b\<in>set new. length b \<le> nat batch_limit"
    "\<forall>k<length new. \<exists>embs. provider (length rq + k) (new ! k) = Inr embs
                  \<and> length embs = length (new ! k)"
    by blast
  then show ?thesis by (intro exI [of _ new]) simp
qed

lemma attempt_mismatch_first_batch:
  assumes "0 < batch_limit" and "texts \<noteq> []"
    and "provider (length rq) (take (nat batch_limit) texts) = Inr embs"
    and "length embs \<noteq> length (take (nat batch_limit) texts)"
  shows "generate_embeddings_attempt batch_limit provider texts rq =
     (Inl (RuntimeError (''Embedding count mismatch. Requested: ''
             @ str_nat (length (take (nat batch_limit) texts)) @ '', Received: ''
             @ str_nat (length embs) @ ''. This indicates a partial failure or API issue.'')),
      rq @ [take (nat batch_limit) texts])"
proof -
  have "0 < length texts" using assms(2) by simp
  from embed_batches_step [OF assms(1) this, of provider "[]" rq] assms(3,4)
  have "embed_batches batch_limit provider texts 0 [] rq =
     (Inl (RuntimeError (''Embedding count mismatch. Requested: ''
             @ str_nat (length (take (nat batch_limit) texts)) @ '', Received: ''
             @ str_nat (length embs) @ ''. This indicates a partial failure or API issue.'')),
      rq @ [take (nat batch_limit) texts])"
    by simp
  then show ?thesis using assms(1,2) by (simp add: generate_embeddings_attempt_def)
qed

lemma vertex_returns:
  assumes "vertex_generate_embeddings batch_limit provider texts rq = (Inr v, rq')"
  shows "\<exists>rq0. generate_embeddings_attempt batch_limit provider texts rq0 = (Inr v, rq')"
proof -
  obtain r1 rq1 where a1: "generate_embeddings_attempt batch_limit provider texts rq = (r1, rq1)"
    by (cases "generate_embeddings_attempt batch_limit provider texts rq")
  obtain r2 rq2 where a2: "generate_embeddings_attempt batch_limit provider texts rq1 = (r2, rq2)"
    by (cases "generate_embeddings_attempt batch_limit provider texts rq1")
  obtain r3 rq3 where a3: "generate_embeddings_attempt batch_limit provider texts rq2 = (r3, rq3)"
    by (cases "generate_embeddings_attempt batch_limit provider texts rq2")
  show ?thesis
  proof (cases r1)
    case (Inr v1)
    then show ?thesis using assms a1 by (auto simp: vertex_generate_embeddings_def)
  next
    case e1: (Inl e1)
    show ?thesis
    proof (cases r2)
      case (Inr v2)
      then show ?thesis using assms a1 a2 e1 by (auto simp: vertex_generate_embeddings_def)
    next
      case e2: (Inl e2)
      show ?thesis
      proof (cases r3)
        case (Inr v3)
        then show ?thesis using assms a1 a2 a3 e1 e2 by (auto simp: vertex_generate_embeddings_def)
      next
        case (Inl e3)
        then show ?thesis using assms a1 a2 a3 e1 e2 by (simp add: vertex_generate_embeddings_def)
      qed
    qed
  qed
qed

lemma vertex_raises:
  assumes "vertex_generate_embeddings batch_limit provider texts rq = (Inl e, rq')"
  shows "\<exists>e1 e2 e3 rq1 rq2.
      generate_embeddings_attempt batch_limit provider texts rq = (Inl e1, rq1)
    \<and> generate_embeddings_attempt batch_limit provider texts rq1 = (Inl e2, rq2)
    \<and> generate_embeddings_attempt batch_limit provider texts rq2 = (Inl e3, rq')
    \<and> e = RetryError e3"
proof -
  obtain r1 rq1 where a1: "generate_embeddings_attempt batch_limit provider texts rq = (r1, rq1)"
    by (cases "generate_embeddings_attempt batch_limit provider texts rq")
  obtain r2 rq2 where a2: "generate_embeddings_attempt batch_limit provider texts rq1 = (r2, rq2)"
    by (cases "generate_embeddings_attempt batch_limit provider texts rq1")
  obtain r3 rq3 where a3: "generate_embeddings_attempt batch_limit provider texts rq2 = (r3, rq3)"
    by (cases "generate_embeddings_attempt batch_limit provider texts rq2")
  show ?thesis
  proof (cases r1)
    case (Inr v1)
    then show ?thesis using assms a1 by (simp add: vertex_generate_embeddings_def)
  next
    case e1: (Inl e1)
    show ?thesis
    proof (cases r2)
      case (Inr v2)
      then show ?thesis using assms a1 a2 e1 by (simp add: vertex_generate_embeddings_def)
    next
      case e2: (Inl e2)
      show ?thesis
      proof (cases r3)
        case (Inr v3)
        then show ?thesis using assms a1 a2 a3 e1 e2 by (simp add: vertex_generate_embeddings_def)
      next
        case (Inl e3)
        then have "e = RetryError e3" "rq' = rq3"
          using assms a1 a2 a3 e1 e2 by (simp_all add: vertex_generate_embeddings_def)
        then show ?thesis using a1 a2 a3 e1 e2 Inl by blast
      qed
    qed
  qed
qed

lemma process_job_embedding_failure:
  assumes "jobs db jid = Some j" and "status j = Pending"
    and "documents db (job_document_id j) = Some d"
    and "extract_chunks env d = (Inr cd, evs)" and "cd \<noteq> []"
    and "generate_embeddings env (map cm_text cd) = Inl e"
  shows "fst (process_job env jid (new_session db)) = Inl e"
    and "chunks (committed (snd (process_job env jid (new_session db)))) = chunks db"
proof -
  let ?s = "\<lparr> committed = claimed env jid j db, pending = claimed env jid j db,
         log = [Commit (claimed env jid j db)], uuids = 0 \<rparr>"
  have "run_pipeline env jid ?s =
      (Inl e, emit (Embed (map cm_text cd)) (?s\<lparr> log := log ?s @ evs \<rparr>))"
    using assms(1,3,4,5,6) by (simp add: run_pipeline_def claimed_def embed_and_store_def Let_def)
  then have tb: "try_block env jid (new_session db) =
      (Inl e, emit (Embed (map cm_text cd)) (?s\<lparr> log := log ?s @ evs \<rparr>))"
    using assms(1,2) try_block_pending [of db jid j env] by simp
  then have pj: "process_job env jid (new_session db) =
      except_handler env jid e (emit (Embed (map cm_text cd)) (?s\<lparr> log := log ?s @ evs \<rparr>))"
    by (simp add: process_job_def)
  show "fst (process_job env jid (new_session db)) = Inl e" unfolding pj by simp
  show "chunks (committed (snd (process_job env jid (new_session db)))) = chunks db"
    unfolding pj by (simp add: except_handler_committed claimed_def split: option.splits)
qed

lemma attempt_single_batch:
  assumes "0 < batch_limit" and "texts \<noteq> []" and "length texts \<le> nat batch_limit"
  shows "generate_embeddings_attempt batch_limit provider texts rq =
     (case provider (length rq) texts of
        Inl e \<Rightarrow> (Inl e, rq @ [texts])
      | Inr embs \<Rightarrow>
          if length embs \<noteq> length texts then
            (Inl (RuntimeError (''Embedding count mismatch. Requested: ''
                    @ str_nat (length texts) @ '', Received: ''
                    @ str_nat (length embs)
                    @ ''. This indicates a partial failure or API issue.'')),
             rq @ [texts])
          else (Inr embs, rq @ [texts]))"
proof -
  have t: "take (nat batch_limit) (drop 0 texts) = texts" using assms(3) by simp
  have pos: "0 < length texts" using assms(2) by simp
  have stop: "embed_batches batch_limit provider texts (0 + nat batch_limit) acc rq' = (Inr acc, rq')"
    for acc rq'
    by (rule embed_batches_stop) (use assms(3) in simp)
  have "generate_embeddings_attempt batch_limit provider texts rq =
      embed_batches batch_limit provider texts 0 [] rq"
    using assms(1,2) by (simp add: generate_embeddings_attempt_def)
  also have "\<dots> = (case provider (length rq) texts of
        Inl e \<Rightarrow> (Inl e, rq @ [texts])
      | Inr embs \<Rightarrow>
          if length embs \<noteq> length texts then
            (Inl (RuntimeError (''Embedding count mismatch. Requested: ''
                    @ str_nat (length texts) @ '', Received: ''
                    @ str_nat (length embs)
                    @ ''. This indicates a partial failure or API issue.'')),
             rq @ [texts])
          else (Inr embs, rq @ [texts]))"
    unfolding embed_batches_step [OF assms(1) pos] t stop
    by (cases "provider (length rq) texts") simp_all
  finally show ?thesis .
qed

lemma len10: "length ten_texts = 10" by (simp add: ten_texts_def)

lemma ten_ne: "ten_texts \<noteq> []" by (simp add: ten_texts_def)

lemma short_ten: "short_provider n ten_texts = Inr (replicate 9 [1])"
  by (simp add: short_provider_def ten_texts_def numeral_eq_Suc)

lemma steady_ten: "steady_provider n ten_texts = Inr (replicate 10 [1])"
  by (simp add: steady_provider_def ten_texts_def numeral_eq_Suc)

lemma str_nat_10: "str_nat 10 = ''10''" "str_nat 9 = ''9''"
  by (simp_all add: str_nat.simps)

lemma attempt_short:
  "generate_embeddings_attempt 128 short_provider ten_texts rq =
     (Inl (RuntimeError
       ''Embedding count mismatch. Requested: 10, Received: 9. This indicates a partial failure or API issue.''),
      rq @ [ten_texts])"
  by (subst attempt_single_batch) (simp_all add: ten_ne len10 short_ten str_nat_10)

lemma attempt_flaky0:
  "generate_embeddings_attempt 128 flaky_provider ten_texts [] =
     (Inl (RuntimeError
       ''Embedding count mismatch. Requested: 10, Received: 9. This indicates a partial failure or API issue.''),
      [ten_texts])"
  by (subst attempt_single_batch)
     (simp_all add: ten_ne len10 flaky_provider_def short_ten str_nat_10)

lemma attempt_flaky1:
  "generate_embeddings_attempt 128 flaky_provider ten_texts [ten_texts] =
     (Inr (replicate 10 [1]), [ten_texts, ten_texts])"
  by (subst attempt_single_batch)
     (simp_all add: ten_ne len10 flaky_provider_def steady_ten)

text \<open>
  A batch limit that is not positive (the environment variable is only capped
  from above): a negative step makes \<open>range\<close> empty, and the attempt returns
  no vectors for any texts; a step of 0 makes \<open>range\<close> raise.
\<close>

lemma nonpositive_batch_limit:
  assumes "texts \<noteq> []"
  shows "batch_limit < 0 \<Longrightarrow>
           generate_embeddings_attempt batch_limit provider texts rq = (Inr [], rq)"
    and "batch_limit = 0 \<Longrightarrow>
           generate_embeddings_attempt batch_limit provider texts rq =
             (Inl (ValueError ''range() arg 3 must not be zero''), rq)"
  using assms by (simp_all add: generate_embeddings_attempt_def embed_batches_stop)

text \<open>
  C7 (embedding batch validator). The claim: any count mismatch raises a fatal
  error. The provider answers the first batch call for ten texts with nine
  vectors and every later call with one vector per text. The first attempt
  raises on the mismatch, the retry decorator runs the body again, the second
  attempt succeeds, and \<open>generate_embeddings\<close> returns ten vectors: the
  mismatch has raised nothing to the caller.
\<close>

theorem mismatch_retried_counterexample:
  "flaky_provider 0 ten_texts = Inr (replicate 9 [1])
   \<and> length (replicate 9 ([1] :: vector)) \<noteq> length ten_texts
   \<and> vertex_generate_embeddings 128 flaky_provider ten_texts [] =
        (Inr (replicate 10 [1]), [ten_texts, ten_texts])"
proof -
  have "flaky_provider 0 ten_texts = Inr (replicate 9 [1])"
    by (simp add: flaky_provider_def short_ten)
  moreover have "length (replicate 9 ([1] :: vector)) \<noteq> length ten_texts"
    by (simp add: len10)
  moreover have "vertex_generate_embeddings 128 flaky_provider ten_texts [] =
        (Inr (replicate 10 [1]), [ten_texts, ten_texts])"
    by (simp add: vertex_generate_embeddings_def attempt_flaky0 attempt_flaky1)
  ultimately show ?thesis by (intro conjI)
qed

text \<open>
  C7, as the code has it, for a positive batch limit. An attempt that returns
  has asked the provider for consecutive batches of at most \<open>batch_limit\<close>
  texts whose concatenation is the input, has received for each batch as many
  vectors as the batch has texts, and returns one vector per input text. A
  mismatch (shown for the first batch) makes the attempt raise
  \<open>RuntimeError\<close>. The decorated call returns only what an attempt returned,
  hence one vector per text, never fewer or more; it raises only when three
  attempts in a row have raised, and then raises \<open>RetryError\<close> around the
  third exception. When the call raises during \<open>process_job\<close>, the run raises
  the same exception and the stored chunks are those from before the run.
\<close>

theorem embedding_batches_validated:
  assumes "0 < batch_limit"
  shows "(\<forall>v rq'. generate_embeddings_attempt batch_limit provider texts rq = (Inr v, rq') \<longrightarrow>
            length v = length texts
          \<and> (\<exists>new. rq' = rq @ new \<and> concat new = texts
                \<and> (\<forall>b\<in>set new. length b \<le> nat batch_limit)
                \<and> (\<forall>k<length new. \<exists>embs. provider (length rq + k) (new ! k) = Inr embs
                       \<and> length embs = length (new ! k))))
       \<and> (\<forall>embs. texts \<noteq> [] \<and> provider (length rq) (take (nat batch_limit) texts) = Inr embs
             \<and> length embs \<noteq> length (take (nat batch_limit) texts) \<longrightarrow>
            generate_embeddings_attempt batch_limit provider texts rq =
              (Inl (RuntimeError (''Embedding count mismatch. Requested: ''
                 @ str_nat (length (take (nat batch_limit) texts)) @ '', Received: ''
                 @ str_nat (length embs) @ ''. This indicates a partial failure or API issue.'')),
               rq @ [take (nat batch_limit) texts]))
       \<and> (\<forall>v rq'. vertex_generate_embeddings batch_limit provider texts rq = (Inr v, rq') \<longrightarrow>
            length v = length texts)
       \<and> (\<forall>e rq'. vertex_generate_embeddings batch_limit provider texts rq = (Inl e, rq') \<longrightarrow>
            (\<exists>e1 e2 e3 rq1 rq2.
                generate_embeddings_attempt batch_limit provider texts rq = (Inl e1, rq1)
              \<and> generate_embeddings_attempt batch_limit provider texts rq1 = (Inl e2, rq2)
              \<and> generate_embeddings_attempt batch_limit provider texts rq2 = (Inl e3, rq')
              \<and> e = RetryError e3))
       \<and> (\<forall>env db jid j d cd evs e.
              jobs db jid = Some j \<and> status j = Pending
            \<and> documents db (job_document_id j) = Some d
            \<and> extract_chunks env d = (Inr cd, evs) \<and> cd \<noteq> []
            \<and> generate_embeddings env (map cm_text cd) =
                fst (vertex_generate_embeddings batch_limit provider (map cm_text cd) [])
            \<and> fst (vertex_generate_embeddings batch_limit provider (map cm_text cd) []) = Inl e \<longrightarrow>
              fst (process_job env jid (new_session db)) = Inl e
            \<and> chunks (committed (snd (process_job env jid (new_session db)))) = chunks db)"
proof (intro conjI allI impI)
  fix v rq' assume a: "generate_embeddings_attempt batch_limit provider texts rq = (Inr v, rq')"
  from attempt_returns [OF assms a]
  show "length v = length texts" by blast
  from attempt_returns [OF assms a]
  show "\<exists>new. rq' = rq @ new \<and> concat new = texts
                \<and> (\<forall>b\<in>set new. length b \<le> nat batch_limit)
                \<and> (\<forall>k<length new. \<exists>embs. provider (length rq + k) (new ! k) = Inr embs
                       \<and> length embs = length (new ! k))" by blast
next
  fix embs assume "texts \<noteq> [] \<and> provider (length rq) (take (nat batch_limit) texts) = Inr embs
             \<and> length embs \<noteq> length (take (nat batch_limit) texts)"
  then show "generate_embeddings_attempt batch_limit provider texts rq =
              (Inl (RuntimeError (''Embedding count mismatch. Requested: ''
                 @ str_nat (length (take (nat batch_limit) texts)) @ '', Received: ''
                 @ str_nat (length embs) @ ''. This indicates a partial failure or API issue.'')),
               rq @ [take (nat batch_limit) texts])"
    using attempt_mismatch_first_batch [OF assms, of texts provider rq embs] by blast
next
  fix v rq' assume "vertex_generate_embeddings batch_limit provider texts rq = (Inr v, rq')"
  from vertex_returns [OF this] obtain rq0 where
    "generate_embeddings_attempt batch_limit provider texts rq0 = (Inr v, rq')" by blast
  from attempt_returns [OF assms this] show "length v = length texts" by blast
next
  fix e rq' assume "vertex_generate_embeddings batch_limit provider texts rq = (Inl e, rq')"
  then show "\<exists>e1 e2 e3 rq1 rq2.
                generate_embeddings_attempt batch_limit provider texts rq = (Inl e1, rq1)
              \<and> generate_embeddings_attempt batch_limit provider texts rq1 = (Inl e2, rq2)
              \<and> generate_embeddings_attempt batch_limit provider texts rq2 = (Inl e3, rq')
              \<and> e = RetryError e3"
    by (rule vertex_raises)
next
  fix env :: env and db :: database and jid and j :: job and d :: document
    and cd :: "chunk_metadata list" and evs :: "event list" and e :: exn
  assume a: "jobs db jid = Some j \<and> status j = Pending
            \<and> documents db (job_document_id j) = Some d
            \<and> extract_chunks env d = (Inr cd, evs) \<and> cd \<noteq> []
            \<and> generate_embeddings env (map cm_text cd) =
                fst (vertex_generate_embeddings batch_limit provider (map cm_text cd) [])
            \<and> fst (vertex_generate_embeddings batch_limit provider (map cm_text cd) []) = Inl e"
  then have g: "generate_embeddings env (map cm_text cd) = Inl e" by simp
  from a g show "fst (process_job env jid (new_session db)) = Inl e"
    using process_job_embedding_failure(1) [of db jid j d env cd evs e] by blast
  from a g show "chunks (committed (snd (process_job env jid (new_session db)))) = chunks db"
    using process_job_embedding_failure(2) [of db jid j d env cd evs e] by blast
qed

lemma attempt_steady4:
  "generate_embeddings_attempt 4 steady_provider ten_texts [] =
     (Inr (replicate 10 [1]),
      [[''t0'', ''t1'', ''t2'', ''t3''], [''t4'', ''t5'', ''t6'', ''t7''], [''t8'', ''t9'']])"
  by (simp add: generate_embeddings_attempt_def embed_batches_step embed_batches_stop
      steady_provider_def ten_texts_def numeral_eq_Suc)

lemma extract_chunks_other_embedder:
  "extract_chunks (env\<lparr> generate_embeddings := g \<rparr>) d = extract_chunks env d"
  by (simp add: extract_chunks_def Let_def split: sum.splits list.splits prod.splits)

lemma vertex_short_one:
  "vertex_generate_embeddings 128 short_provider [''Hello there.''] [] =
     (Inl (RetryError (RuntimeError
        ''Embedding count mismatch. Requested: 1, Received: 0. This indicates a partial failure or API issue.'')),
      [[''Hello there.''], [''Hello there.''], [''Hello there.'']])"
proof -
  have a: "generate_embeddings_attempt 128 short_provider [''Hello there.''] rq =
     (Inl (RuntimeError
        ''Embedding count mismatch. Requested: 1, Received: 0. This indicates a partial failure or API issue.''),
      rq @ [[''Hello there.'']])" for rq
    by (subst attempt_single_batch) (simp_all add: short_provider_def str_nat.simps)
  show ?thesis by (simp add: vertex_generate_embeddings_def a)
qed

lemma vertex_short_ten:
  "vertex_generate_embeddings 128 short_provider ten_texts [] =
     (Inl (RetryError (RuntimeError
        ''Embedding count mismatch. Requested: 10, Received: 9. This indicates a partial failure or API issue.'')),
      [ten_texts, ten_texts, ten_texts])"
  by (simp add: vertex_generate_embeddings_def attempt_short)

theorem embedding_batches_validated_witness:
  "(let mismatch = (\<lambda>req rec. RuntimeError (''Embedding count mismatch. Requested: '' @ req
                      @ '', Received: '' @ rec @ ''. This indicates a partial failure or API issue.''));
        env = ex_env\<lparr> generate_embeddings :=
                (\<lambda>texts. fst (vertex_generate_embeddings 128 short_provider texts [])) \<rparr>;
        db = ex_db Pending Text ''gs://b/notes.txt''
    in (0::int) < 4 \<and> (0::int) < 128
     \<and> generate_embeddings_attempt 4 steady_provider ten_texts [] =
         (Inr (replicate 10 [1]),
          [[''t0'', ''t1'', ''t2'', ''t3''], [''t4'', ''t5'', ''t6'', ''t7''], [''t8'', ''t9'']])
     \<and> length (replicate 10 ([1] :: vector)) = length ten_texts
     \<and> short_provider 0 (take (nat 128) ten_texts) = Inr (replicate 9 [1])
     \<and> generate_embeddings_attempt 128 short_provider ten_texts [] =
         (Inl (mismatch ''10'' ''9''), [ten_texts])
     \<and> vertex_generate_embeddings 128 flaky_provider ten_texts [] =
         (Inr (replicate 10 [1]), [ten_texts, ten_texts])
     \<and> vertex_generate_embeddings 128 short_provider ten_texts [] =
         (Inl (RetryError (mismatch ''10'' ''9'')), [ten_texts, ten_texts, ten_texts])
     \<and> jobs db ''j'' = Some (ex_job Pending) \<and> status (ex_job Pending) = Pending
     \<and> fst (process_job env ''j'' (new_session db)) = Inl (RetryError (mismatch ''1'' ''0''))
     \<and> chunks (committed (snd (process_job env ''j'' (new_session db)))) = [])"
proof -
  define mismatch where "mismatch = (\<lambda>req rec. RuntimeError (''Embedding count mismatch. Requested: '' @ req
                      @ '', Received: '' @ rec @ ''. This indicates a partial failure or API issue.''))"
  define env where "env = ex_env\<lparr> generate_embeddings :=
                (\<lambda>texts. fst (vertex_generate_embeddings 128 short_provider texts [])) \<rparr>"
  define db where "db = ex_db Pending Text ''gs://b/notes.txt''"
  define cd where "cd = [\<lparr> cm_text = ''Hello there.'', cm_start_time = None, cm_end_time = None,
       chunk_index = 0, cm_page_number = Some 1, cm_metadata = Some (Some 1, Some 1) \<rparr>]"
  have p4: "(0::int) < 4" and p128: "(0::int) < 128" by simp_all
  txt \<open>a successful attempt in three batches\<close>
  have a1: "generate_embeddings_attempt 4 steady_provider ten_texts [] =
         (Inr (replicate 10 [1]),
          [[''t0'', ''t1'', ''t2'', ''t3''], [''t4'', ''t5'', ''t6'', ''t7''], [''t8'', ''t9'']])"
    by (rule attempt_steady4)
  have w1: "length (replicate 10 ([1] :: vector)) = length ten_texts"
    using embedding_batches_validated [OF p4, of steady_provider ten_texts "[]"] a1 by blast
  txt \<open>a mismatch in the first batch\<close>
  have t: "take (nat 128) ten_texts = ten_texts" by (simp add: len10)
  have s0: "short_provider 0 (take (nat 128) ten_texts) = Inr (replicate 9 [1])"
    unfolding t by (rule short_ten)
  have s0': "ten_texts \<noteq> [] \<and> short_provider (length ([] :: string list list)) (take (nat 128) ten_texts)
       = Inr (replicate 9 [1])
     \<and> length (replicate 9 ([1] :: vector)) \<noteq> length (take (nat 128) ten_texts)"
    using s0 by (simp add: ten_ne len10)
  have "generate_embeddings_attempt 128 short_provider ten_texts [] =
      (Inl (RuntimeError (''Embedding count mismatch. Requested: ''
                 @ str_nat (length (take (nat 128) ten_texts)) @ '', Received: ''
                 @ str_nat (length (replicate 9 ([1] :: vector)))
                 @ ''. This indicates a partial failure or API issue.'')),
               [] @ [take (nat 128) ten_texts])"
    using embedding_batches_validated [OF p128, of short_provider ten_texts "[]"] s0' by blast
  then have w2: "generate_embeddings_attempt 128 short_provider ten_texts [] =
         (Inl (mismatch ''10'' ''9''), [ten_texts])"
    unfolding t by (simp add: len10 str_nat_10 mismatch_def)
  txt \<open>the decorated call\<close>
  have v1: "vertex_generate_embeddings 128 flaky_provider ten_texts [] =
         (Inr (replicate 10 [1]), [ten_texts, ten_texts])"
    by (simp add: vertex_generate_embeddings_def attempt_flaky0 attempt_flaky1)
  have v2: "vertex_generate_embeddings 128 short_provider ten_texts [] =
         (Inl (RetryError (mismatch ''10'' ''9'')), [ten_texts, ten_texts, ten_texts])"
    by (simp add: vertex_short_ten mismatch_def)
  txt \<open>inside the worker\<close>
  have h1: "jobs db ''j'' = Some (ex_job Pending)" by (simp add: db_def ex_db_def)
  have h2: "status (ex_job Pending) = Pending" by (simp add: ex_job_def)
  have h3: "documents db (job_document_id (ex_job Pending)) = Some (ex_document Text ''gs://b/notes.txt'')"
    by (simp add: db_def ex_db_def ex_job_def)
  have h4: "extract_chunks env (ex_document Text ''gs://b/notes.txt'') = (Inr cd, [Download ''b'' ''notes.txt''])"
    unfolding env_def extract_chunks_other_embedder cd_def by (rule extract_ex)
  have h5: "cd \<noteq> []" by (simp add: cd_def)
  have h6: "generate_embeddings env (map cm_text cd) =
      fst (vertex_generate_embeddings 128 short_provider (map cm_text cd) [])"
    by (simp add: env_def)
  have h7: "fst (vertex_generate_embeddings 128 short_provider (map cm_text cd) []) =
      Inl (RetryError (mismatch ''1'' ''0''))"
    by (simp add: cd_def vertex_short_one mismatch_def)
  have w5: "fst (process_job env ''j'' (new_session db)) = Inl (RetryError (mismatch ''1'' ''0''))
     \<and> chunks (committed (snd (process_job env ''j'' (new_session db)))) = chunks db"
    using embedding_batches_validated [OF p128, of short_provider ten_texts "[]"]
      h1 h2 h3 h4 h5 h6 h7 by blast
  have c: "chunks db = []" by (simp add: db_def ex_db_def)
  show ?thesis
    unfolding Let_def mismatch_def [symmetric] env_def [symmetric] db_def [symmetric]
    using p4 p128 a1 w1 s0 w2 v1 v2 h1 h2 w5 c by simp
qed

end
